theory Spec2Isabelle
  imports Main "HOL-Library.AList" "HOL-Library.Signed_Division"
begin

section \<open>Conventions of the embedding\<close>

text \<open>
  The caches are C++ class templates over \<open>Key\<close> and \<open>Value\<close>; the model is polymorphic
  in \<open>'k\<close> and \<open>'v\<close>. Where the source default-constructs a key or a value
  (\<open>Key()\<close>, \<open>Value()\<close>, \<open>Value val{}\<close>) the model takes that default as an explicit
  argument \<open>dk\<close> or \<open>dv\<close>.

  A local declared without an initialiser (\<open>Value val;\<close> in \<open>LFUCache\<close>,
  \<open>LFUAvgCache\<close>, \<open>LFUHashCache\<close> and \<open>ARCCache\<close>) is default-initialised: it is
  default-constructed when \<open>Value\<close> is a class type and holds an indeterminate value when
  \<open>Value\<close> is a scalar type. The model takes the content of such a local as an explicit
  argument \<open>uv\<close>, of which nothing is assumed: it is not the default \<open>dv\<close>.

  Nodes are held by \<open>std::shared_ptr\<close>. Each cache object owns a store that maps an
  address to the node living there together with the next unused address; a pointer is
  \<open>Some\<close> address or \<open>None\<close> for \<open>nullptr\<close>. No node is shared between two cache
  objects, so every cache carries its own store.

  Every operation that can dereference a null pointer returns an \<open>option\<close>: \<open>None\<close>
  stands for the undefined behaviour of that dereference. The mutex of each cache is not
  modelled: the model describes one operation at a time.

  An \<open>std::unordered_map\<close> is an association list with distinct keys, updated by
  \<open>AList.update\<close> and \<open>AList.delete\<close>; \<open>size()\<close> is its length. The order in
  which the iterators of the container visit its entries is left to the implementation
  by C++; where the source iterates (the aging pass of \<open>LFUAvgCache\<close>) that order is a
  parameter of the model, a function from the entries to the sequence visited.

  \<open>size_t\<close> is 64 bits wide: a \<open>size_t\<close> value is a \<open>nat\<close>, with the wrap-around
  written out where the source increments it or converts an \<open>int\<close> to it. Signed
  \<open>int\<close> counters are unbounded integers: signed overflow is undefined in C++, and the
  model agrees with every run in which no counter reaches \<open>2^31\<close>.
\<close>

type_synonym ptr = nat

definition size_t_of_int :: "int \<Rightarrow> nat" where
  "size_t_of_int i = nat (i mod 2 ^ 64)"

definition size_t_incr :: "nat \<Rightarrow> nat" where
  "size_t_incr n = (n + 1) mod 2 ^ 64"

definition int_of_size_t :: "nat \<Rightarrow> int" where
  "int_of_size_t n = (let m = int n mod 2 ^ 32 in if m < 2 ^ 31 then m else m - 2 ^ 32)"

section \<open>LRU: \<open>src/LRU/CacheLRU.h\<close>\<close>

record ('k, 'v) LRUNode =
  lru_key :: 'k
  lru_val :: 'v
  lru_count :: nat
  lru_prev :: "ptr option"
  lru_next :: "ptr option"

record ('k, 'v) LRUCache =
  lru_capacity :: int
  lru_nodeMap :: "('k \<times> ptr) list"
  lru_dummyHead :: ptr
  lru_dummyTail :: ptr
  lru_store :: "ptr \<Rightarrow> ('k, 'v) LRUNode"
  lru_fresh :: ptr

text \<open>\<open>LRUNode(key, val)\<close>: count 1, both links null.\<close>

definition LRUNode_new :: "'k \<Rightarrow> 'v \<Rightarrow> ('k, 'v) LRUNode" where
  "LRUNode_new key val =
     \<lparr>lru_key = key, lru_val = val, lru_count = 1, lru_prev = None, lru_next = None\<rparr>"

text \<open>\<open>std::make_shared<LRUNodeType>(key, val)\<close>: the node is put at the next unused address.\<close>

definition LRU_make_shared ::
  "'k \<Rightarrow> 'v \<Rightarrow> ('k, 'v) LRUCache \<Rightarrow> ptr \<times> ('k, 'v) LRUCache" where
  "LRU_make_shared key val c =
     (lru_fresh c,
      c\<lparr>lru_store := (lru_store c)(lru_fresh c := LRUNode_new key val),
        lru_fresh := Suc (lru_fresh c)\<rparr>)"

definition lru_set_prev :: "ptr \<Rightarrow> ptr option \<Rightarrow> ('k, 'v) LRUCache \<Rightarrow> ('k, 'v) LRUCache" where
  "lru_set_prev p q c = c\<lparr>lru_store := (lru_store c)(p := (lru_store c p)\<lparr>lru_prev := q\<rparr>)\<rparr>"

definition lru_set_next :: "ptr \<Rightarrow> ptr option \<Rightarrow> ('k, 'v) LRUCache \<Rightarrow> ('k, 'v) LRUCache" where
  "lru_set_next p q c = c\<lparr>lru_store := (lru_store c)(p := (lru_store c p)\<lparr>lru_next := q\<rparr>)\<rparr>"

definition lru_set_val :: "ptr \<Rightarrow> 'v \<Rightarrow> ('k, 'v) LRUCache \<Rightarrow> ('k, 'v) LRUCache" where
  "lru_set_val p v c = c\<lparr>lru_store := (lru_store c)(p := (lru_store c p)\<lparr>lru_val := v\<rparr>)\<rparr>"

text \<open>
  The constructor with \<open>initializeList\<close>: two sentinels built from \<open>Key()\<close> and
  \<open>Value()\<close>, linked to each other.
\<close>

definition LRUCache_init :: "'k \<Rightarrow> 'v \<Rightarrow> int \<Rightarrow> ('k, 'v) LRUCache" where
  "LRUCache_init dk dv capacity =
     (let c0 = \<lparr>lru_capacity = capacity, lru_nodeMap = [], lru_dummyHead = 0,
                lru_dummyTail = 0, lru_store = (\<lambda>_. LRUNode_new dk dv), lru_fresh = 0\<rparr>;
          (h, c1) = LRU_make_shared dk dv c0;
          (t, c2) = LRU_make_shared dk dv c1;
          c3 = c2\<lparr>lru_dummyHead := h, lru_dummyTail := t\<rparr>
      in lru_set_prev t (Some h) (lru_set_next h (Some t) c3))"

text \<open>
  \<open>removeNode\<close>: when both links are set, the neighbours are linked to each other and the
  node's \<open>next_\<close> is set to null. The node's \<open>prev_\<close> is not assigned.
\<close>

definition LRU_removeNode :: "ptr \<Rightarrow> ('k, 'v) LRUCache \<Rightarrow> ('k, 'v) LRUCache" where
  "LRU_removeNode node c =
     (case (lru_prev (lru_store c node), lru_next (lru_store c node)) of
        (Some prev, Some nxt) \<Rightarrow>
          lru_set_next node None (lru_set_prev nxt (Some prev) (lru_set_next prev (Some nxt) c))
      | _ \<Rightarrow> c)"

text \<open>
  \<open>insertNode\<close>: appends before the tail sentinel. \<open>dummyTail_->prev_->next_\<close>
  dereferences the tail's predecessor without a check.
\<close>

definition LRU_insertNode :: "ptr \<Rightarrow> ('k, 'v) LRUCache \<Rightarrow> ('k, 'v) LRUCache option" where
  "LRU_insertNode node c =
     (let t = lru_dummyTail c;
          c1 = lru_set_next node (Some t) c;
          c2 = lru_set_prev node (lru_prev (lru_store c1 t)) c1
      in case lru_prev (lru_store c2 t) of
           None \<Rightarrow> None
         | Some p \<Rightarrow> Some (lru_set_prev t (Some node) (lru_set_next p (Some node) c2)))"

definition LRU_moveToMostRecent :: "ptr \<Rightarrow> ('k, 'v) LRUCache \<Rightarrow> ('k, 'v) LRUCache option" where
  "LRU_moveToMostRecent node c = LRU_insertNode node (LRU_removeNode node c)"

definition LRU_updateExistingNode ::
  "ptr \<Rightarrow> 'v \<Rightarrow> ('k, 'v) LRUCache \<Rightarrow> ('k, 'v) LRUCache option" where
  "LRU_updateExistingNode node val c = LRU_moveToMostRecent node (lru_set_val node val c)"

text \<open>
  \<open>evictLeastRecent\<close>: the successor of the head sentinel is unlinked and its key erased
  from the map. \<open>removeNode\<close> reads the fields of that successor, so a null successor is a
  null dereference.
\<close>

definition LRU_evictLeastRecent :: "('k, 'v) LRUCache \<Rightarrow> ('k, 'v) LRUCache option" where
  "LRU_evictLeastRecent c =
     (case lru_next (lru_store c (lru_dummyHead c)) of
        None \<Rightarrow> None
      | Some leastRecent \<Rightarrow>
          (let c1 = LRU_removeNode leastRecent c
           in Some (c1\<lparr>lru_nodeMap :=
                AList.delete (lru_key (lru_store c1 leastRecent)) (lru_nodeMap c1)\<rparr>)))"

text \<open>
  \<open>addNode\<close>: \<open>nodeMap_.size() >= capacity_\<close> compares a \<open>size_t\<close> with an \<open>int\<close>, so
  the capacity is converted to \<open>size_t\<close>.
\<close>

definition LRU_addNode :: "'k \<Rightarrow> 'v \<Rightarrow> ('k, 'v) LRUCache \<Rightarrow> ('k, 'v) LRUCache option" where
  "LRU_addNode key val c =
     (case (if length (lru_nodeMap c) \<ge> size_t_of_int (lru_capacity c)
            then LRU_evictLeastRecent c else Some c) of
        None \<Rightarrow> None
      | Some c1 \<Rightarrow>
          (let (node, c2) = LRU_make_shared key val c1
           in case LRU_insertNode node c2 of
                None \<Rightarrow> None
              | Some c3 \<Rightarrow> Some (c3\<lparr>lru_nodeMap := AList.update key node (lru_nodeMap c3)\<rparr>)))"

definition LRU_put :: "'k \<Rightarrow> 'v \<Rightarrow> ('k, 'v) LRUCache \<Rightarrow> ('k, 'v) LRUCache option" where
  "LRU_put key val c =
     (if 0 \<ge> lru_capacity c then Some c
      else case map_of (lru_nodeMap c) key of
             Some node \<Rightarrow> LRU_updateExistingNode node val c
           | None \<Rightarrow> LRU_addNode key val c)"

text \<open>
  \<open>get(key, val)\<close>: the argument \<open>val\<close> is the content of the caller's variable before
  the call; the result carries the returned flag and the content of that variable after
  the call.
\<close>

definition LRU_get ::
  "'k \<Rightarrow> 'v \<Rightarrow> ('k, 'v) LRUCache \<Rightarrow> ((bool \<times> 'v) \<times> ('k, 'v) LRUCache) option" where
  "LRU_get key val c =
     (case map_of (lru_nodeMap c) key of
        Some node \<Rightarrow>
          (case LRU_moveToMostRecent node c of
             None \<Rightarrow> None
           | Some c1 \<Rightarrow> Some ((True, lru_val (lru_store c1 node)), c1))
      | None \<Rightarrow> Some ((False, val), c))"

text \<open>\<open>get(key)\<close>: \<open>Value val{}; get(key, val); return val;\<close>\<close>

definition LRU_get1 :: "'v \<Rightarrow> 'k \<Rightarrow> ('k, 'v) LRUCache \<Rightarrow> ('v \<times> ('k, 'v) LRUCache) option" where
  "LRU_get1 dv key c =
     (case LRU_get key dv c of None \<Rightarrow> None | Some ((_, val), c1) \<Rightarrow> Some (val, c1))"

definition LRU_remove :: "'k \<Rightarrow> ('k, 'v) LRUCache \<Rightarrow> ('k, 'v) LRUCache" where
  "LRU_remove key c =
     (case map_of (lru_nodeMap c) key of
        Some node \<Rightarrow>
          (let c1 = LRU_removeNode node c
           in c1\<lparr>lru_nodeMap := AList.delete key (lru_nodeMap c1)\<rparr>)
      | None \<Rightarrow> c)"

section \<open>LRU-K: \<open>src/LRU/CacheLRUK.h\<close>\<close>

text \<open>
  \<open>LRUKCache\<close> derives from \<open>LRUCache<Key, Value>\<close> (the main cache, field
  \<open>lruk_main\<close>) and owns a second \<open>LRUCache<Key, size_t>\<close> that counts accesses.
  \<open>histCount >= k_\<close> compares a \<open>size_t\<close> with an \<open>int\<close>.
\<close>

record ('k, 'v) LRUKCache =
  lruk_main :: "('k, 'v) LRUCache"
  lruk_k :: int
  lruk_histList :: "('k, nat) LRUCache"
  lruk_histValMap :: "('k \<times> 'v) list"

definition LRUKCache_init :: "'k \<Rightarrow> 'v \<Rightarrow> int \<Rightarrow> int \<Rightarrow> int \<Rightarrow> ('k, 'v) LRUKCache" where
  "LRUKCache_init dk dv capatity histCapatity k =
     \<lparr>lruk_main = LRUCache_init dk dv capatity, lruk_k = k,
      lruk_histList = LRUCache_init dk 0 histCapatity, lruk_histValMap = []\<rparr>"

definition LRUK_put :: "'v \<Rightarrow> 'k \<Rightarrow> 'v \<Rightarrow> ('k, 'v) LRUKCache \<Rightarrow> ('k, 'v) LRUKCache option" where
  "LRUK_put dv key val c =
     (case LRU_get key dv (lruk_main c) of
        None \<Rightarrow> None
      | Some ((True, existingVal), m1) \<Rightarrow>
          map_option (\<lambda>m2. c\<lparr>lruk_main := m2\<rparr>) (LRU_put key val m1)
      | Some ((False, existingVal), m1) \<Rightarrow>
          (case LRU_get1 0 key (lruk_histList c) of
             None \<Rightarrow> None
           | Some (histCount0, h1) \<Rightarrow>
               (let histCount = size_t_incr histCount0
                in case LRU_put key histCount h1 of
                     None \<Rightarrow> None
                   | Some h2 \<Rightarrow>
                       (let hv = AList.update key val (lruk_histValMap c);
                            c1 = c\<lparr>lruk_main := m1, lruk_histList := h2, lruk_histValMap := hv\<rparr>
                        in if histCount \<ge> size_t_of_int (lruk_k c)
                           then map_option
                                  (\<lambda>m2. c1\<lparr>lruk_main := m2,
                                            lruk_histList := LRU_remove key h2,
                                            lruk_histValMap := AList.delete key hv\<rparr>)
                                  (LRU_put key val m1)
                           else Some c1))))"

definition LRUK_get ::
  "'k \<Rightarrow> 'v \<Rightarrow> ('k, 'v) LRUKCache \<Rightarrow> ((bool \<times> 'v) \<times> ('k, 'v) LRUKCache) option" where
  "LRUK_get key val c =
     (case LRU_get key val (lruk_main c) of
        None \<Rightarrow> None
      | Some ((inMainCache, val1), m1) \<Rightarrow>
          (case LRU_get1 0 key (lruk_histList c) of
             None \<Rightarrow> None
           | Some (histCount0, h1) \<Rightarrow>
               (let histCount = size_t_incr histCount0
                in case LRU_put key histCount h1 of
                     None \<Rightarrow> None
                   | Some h2 \<Rightarrow>
                       (let c1 = c\<lparr>lruk_main := m1, lruk_histList := h2\<rparr>
                        in if inMainCache then Some ((True, val1), c1)
                           else if histCount \<ge> size_t_of_int (lruk_k c)
                           then (case map_of (lruk_histValMap c1) key of
                                   Some hval \<Rightarrow>
                                     map_option
                                       (\<lambda>m2. ((True, hval),
                                              c1\<lparr>lruk_main := m2,
                                                 lruk_histList := LRU_remove key h2,
                                                 lruk_histValMap :=
                                                   AList.delete key (lruk_histValMap c1)\<rparr>))
                                       (LRU_put key hval m1)
                                 | None \<Rightarrow> Some ((False, val1), c1))
                           else Some ((False, val1), c1)))))"

definition LRUK_get1 :: "'v \<Rightarrow> 'k \<Rightarrow> ('k, 'v) LRUKCache \<Rightarrow> ('v \<times> ('k, 'v) LRUKCache) option" where
  "LRUK_get1 dv key c =
     (case LRUK_get key dv c of None \<Rightarrow> None | Some ((_, val), c1) \<Rightarrow> Some (val, c1))"

section \<open>LFU: \<open>src/LFU/CacheLFU.h\<close>\<close>

subsection \<open>\<open>FreqList\<close> and its nodes\<close>

record ('k, 'v) LFUNode =
  lfu_freq :: int
  lfu_key :: 'k
  lfu_val :: 'v
  lfu_prev :: "ptr option"
  lfu_next :: "ptr option"

text \<open>
  The store of the \<open>LFUNode\<close>s of one cache. \<open>lfu_blank\<close> is the value of
  \<open>LFUNode()\<close>: frequency 1, default key and value, null links.
\<close>

record ('k, 'v) LFUHeap =
  lfu_store :: "ptr \<Rightarrow> ('k, 'v) LFUNode"
  lfu_fresh :: ptr
  lfu_blank :: "('k, 'v) LFUNode"

text \<open>
  A \<open>FreqList\<close> object. Its two sentinels are assigned once, in \<open>initializeList\<close>, so
  they are never null and the checks \<open>!dummyHead_ || !dummyTail_\<close> of the source are
  never taken.
\<close>

record FreqList =
  fl_freq :: int
  fl_dummyHead :: ptr
  fl_dummyTail :: ptr

definition LFUHeap_init :: "'k \<Rightarrow> 'v \<Rightarrow> ('k, 'v) LFUHeap" where
  "LFUHeap_init dk dv =
     (let b = \<lparr>lfu_freq = 1, lfu_key = dk, lfu_val = dv, lfu_prev = None, lfu_next = None\<rparr>
      in \<lparr>lfu_store = (\<lambda>_. b), lfu_fresh = 0, lfu_blank = b\<rparr>)"

definition LFU_make_shared :: "('k, 'v) LFUNode \<Rightarrow> ('k, 'v) LFUHeap \<Rightarrow> ptr \<times> ('k, 'v) LFUHeap" where
  "LFU_make_shared n h =
     (lfu_fresh h, h\<lparr>lfu_store := (lfu_store h)(lfu_fresh h := n), lfu_fresh := Suc (lfu_fresh h)\<rparr>)"

text \<open>\<open>LFUNode(key, val)\<close>: frequency 1, null links.\<close>

definition LFUNode_new :: "'k \<Rightarrow> 'v \<Rightarrow> ('k, 'v) LFUNode" where
  "LFUNode_new key val =
     \<lparr>lfu_freq = 1, lfu_key = key, lfu_val = val, lfu_prev = None, lfu_next = None\<rparr>"

definition lfu_set_prev :: "ptr \<Rightarrow> ptr option \<Rightarrow> ('k, 'v) LFUHeap \<Rightarrow> ('k, 'v) LFUHeap" where
  "lfu_set_prev p q h = h\<lparr>lfu_store := (lfu_store h)(p := (lfu_store h p)\<lparr>lfu_prev := q\<rparr>)\<rparr>"

definition lfu_set_next :: "ptr \<Rightarrow> ptr option \<Rightarrow> ('k, 'v) LFUHeap \<Rightarrow> ('k, 'v) LFUHeap" where
  "lfu_set_next p q h = h\<lparr>lfu_store := (lfu_store h)(p := (lfu_store h p)\<lparr>lfu_next := q\<rparr>)\<rparr>"

definition lfu_set_val :: "ptr \<Rightarrow> 'v \<Rightarrow> ('k, 'v) LFUHeap \<Rightarrow> ('k, 'v) LFUHeap" where
  "lfu_set_val p v h = h\<lparr>lfu_store := (lfu_store h)(p := (lfu_store h p)\<lparr>lfu_val := v\<rparr>)\<rparr>"

definition lfu_set_freq :: "ptr \<Rightarrow> int \<Rightarrow> ('k, 'v) LFUHeap \<Rightarrow> ('k, 'v) LFUHeap" where
  "lfu_set_freq p f h = h\<lparr>lfu_store := (lfu_store h)(p := (lfu_store h p)\<lparr>lfu_freq := f\<rparr>)\<rparr>"

text \<open>\<open>new FreqList(count)\<close> with \<open>initializeList\<close>.\<close>

definition FreqList_new :: "int \<Rightarrow> ('k, 'v) LFUHeap \<Rightarrow> FreqList \<times> ('k, 'v) LFUHeap" where
  "FreqList_new count h =
     (let (hd, h1) = LFU_make_shared (lfu_blank h) h;
          (tl, h2) = LFU_make_shared (lfu_blank h1) h1
      in (\<lparr>fl_freq = count, fl_dummyHead = hd, fl_dummyTail = tl\<rparr>,
          lfu_set_prev tl (Some hd) (lfu_set_next hd (Some tl) h2)))"

definition FreqList_isEmpty :: "FreqList \<Rightarrow> ('k, 'v) LFUHeap \<Rightarrow> bool" where
  "FreqList_isEmpty fl h = (lfu_next (lfu_store h (fl_dummyHead fl)) = Some (fl_dummyTail fl))"

text \<open>
  \<open>addNode\<close>: a null node returns at once; \<open>dummyTail_->prev->next\<close> dereferences the
  tail's predecessor without a check.
\<close>

definition FreqList_addNode ::
  "ptr option \<Rightarrow> FreqList \<Rightarrow> ('k, 'v) LFUHeap \<Rightarrow> ('k, 'v) LFUHeap option" where
  "FreqList_addNode node fl h =
     (case node of
        None \<Rightarrow> Some h
      | Some n \<Rightarrow>
          (let t = fl_dummyTail fl;
               h1 = lfu_set_prev n (lfu_prev (lfu_store h t)) h;
               h2 = lfu_set_next n (Some t) h1
           in case lfu_prev (lfu_store h2 t) of
                None \<Rightarrow> None
              | Some p \<Rightarrow> Some (lfu_set_prev t (Some n) (lfu_set_next p (Some n) h2))))"

text \<open>\<open>removeNode\<close>: both links of the removed node are set to null.\<close>

definition FreqList_removeNode :: "ptr option \<Rightarrow> ('k, 'v) LFUHeap \<Rightarrow> ('k, 'v) LFUHeap" where
  "FreqList_removeNode node h =
     (case node of
        None \<Rightarrow> h
      | Some n \<Rightarrow>
          (case (lfu_prev (lfu_store h n), lfu_next (lfu_store h n)) of
             (Some prev, Some nxt) \<Rightarrow>
               lfu_set_next n None (lfu_set_prev n None
                 (lfu_set_prev nxt (Some prev) (lfu_set_next prev (Some nxt) h)))
           | _ \<Rightarrow> h))"

definition FreqList_getFirstNode :: "FreqList \<Rightarrow> ('k, 'v) LFUHeap \<Rightarrow> ptr option" where
  "FreqList_getFirstNode fl h = lfu_next (lfu_store h (fl_dummyHead fl))"

subsection \<open>\<open>LFUCache\<close>\<close>

record ('k, 'v) LFUCache =
  lfu_capacity :: int
  lfu_minFreq :: int
  lfu_cacheMap :: "('k \<times> ptr) list"
  lfu_freqListMap :: "(int \<times> FreqList) list"
  lfu_heap :: "('k, 'v) LFUHeap"

definition LFUCache_init :: "'k \<Rightarrow> 'v \<Rightarrow> int \<Rightarrow> ('k, 'v) LFUCache" where
  "LFUCache_init dk dv capacity =
     \<lparr>lfu_capacity = capacity, lfu_minFreq = 0, lfu_cacheMap = [], lfu_freqListMap = [],
      lfu_heap = LFUHeap_init dk dv\<rparr>"

text \<open>
  \<open>removeNodeFromFreqList\<close>. The list of the node's frequency is erased from the map
  when the removal leaves it empty, and \<open>minFreq_\<close> is then moved when it was that
  frequency.
\<close>

definition LFU_removeNodeFromFreqList :: "ptr option \<Rightarrow> ('k, 'v) LFUCache \<Rightarrow> ('k, 'v) LFUCache" where
  "LFU_removeNodeFromFreqList node c =
     (case node of
        None \<Rightarrow> c
      | Some n \<Rightarrow>
          (let f = lfu_freq (lfu_store (lfu_heap c) n)
           in case map_of (lfu_freqListMap c) f of
                None \<Rightarrow> c
              | Some fl \<Rightarrow>
                  (let c1 = c\<lparr>lfu_heap := FreqList_removeNode node (lfu_heap c)\<rparr>
                   in if FreqList_getFirstNode fl (lfu_heap c1) = Some (fl_dummyTail fl)
                      then (let m = AList.delete f (lfu_freqListMap c1);
                                c2 = c1\<lparr>lfu_freqListMap := m\<rparr>
                            in if lfu_minFreq c2 = f
                               then c2\<lparr>lfu_minFreq := (if m = [] then 0 else lfu_minFreq c2 + 1)\<rparr>
                               else c2)
                      else c1)))"

definition LFU_addNodeToFreqList ::
  "ptr option \<Rightarrow> ('k, 'v) LFUCache \<Rightarrow> ('k, 'v) LFUCache option" where
  "LFU_addNodeToFreqList node c =
     (case node of
        None \<Rightarrow> Some c
      | Some n \<Rightarrow>
          (let f = lfu_freq (lfu_store (lfu_heap c) n);
               c1 = (case map_of (lfu_freqListMap c) f of
                       Some _ \<Rightarrow> c
                     | None \<Rightarrow>
                         (let (fl, h1) = FreqList_new f (lfu_heap c)
                          in c\<lparr>lfu_freqListMap := AList.update f fl (lfu_freqListMap c),
                               lfu_heap := h1\<rparr>))
           in case map_of (lfu_freqListMap c1) f of
                None \<Rightarrow> None
              | Some fl \<Rightarrow>
                  map_option (\<lambda>h. c1\<lparr>lfu_heap := h\<rparr>) (FreqList_addNode node fl (lfu_heap c1))))"

text \<open>
  \<open>put\<close>. For a key that is already in \<open>cacheMap_\<close> the only statement is
  \<open>it->second->val = val\<close>. For a new key the eviction is guarded by three conditions;
  \<open>node->key\<close> after it dereferences the first node of the list at \<open>minFreq_\<close>.
\<close>

definition LFU_put :: "'k \<Rightarrow> 'v \<Rightarrow> ('k, 'v) LFUCache \<Rightarrow> ('k, 'v) LFUCache option" where
  "LFU_put key val c =
     (if 0 = lfu_capacity c then Some c
      else case map_of (lfu_cacheMap c) key of
             Some n \<Rightarrow> Some (c\<lparr>lfu_heap := lfu_set_val n val (lfu_heap c)\<rparr>)
           | None \<Rightarrow>
               (case (if length (lfu_cacheMap c) \<ge> size_t_of_int (lfu_capacity c) \<and> lfu_minFreq c > 0
                      then (case map_of (lfu_freqListMap c) (lfu_minFreq c) of
                              None \<Rightarrow> Some c
                            | Some fl \<Rightarrow>
                                (let node = FreqList_getFirstNode fl (lfu_heap c);
                                     c1 = LFU_removeNodeFromFreqList node c
                                 in case node of
                                      None \<Rightarrow> None
                                    | Some n \<Rightarrow>
                                        Some (c1\<lparr>lfu_cacheMap :=
                                          AList.delete (lfu_key (lfu_store (lfu_heap c1) n))
                                            (lfu_cacheMap c1)\<rparr>)))
                      else Some c) of
                  None \<Rightarrow> None
                | Some c2 \<Rightarrow>
                    (let (newNode, h) = LFU_make_shared (LFUNode_new key val) (lfu_heap c2);
                         c3 = c2\<lparr>lfu_heap := h,
                                 lfu_cacheMap := AList.update key newNode (lfu_cacheMap c2),
                                 lfu_minFreq := 1\<rparr>
                     in LFU_addNodeToFreqList (Some newNode) c3)))"

definition LFU_get ::
  "'k \<Rightarrow> 'v \<Rightarrow> ('k, 'v) LFUCache \<Rightarrow> ((bool \<times> 'v) \<times> ('k, 'v) LFUCache) option" where
  "LFU_get key val c =
     (case map_of (lfu_cacheMap c) key of
        Some n \<Rightarrow>
          (let c1 = LFU_removeNodeFromFreqList (Some n) c;
               c2 = c1\<lparr>lfu_heap :=
                      lfu_set_freq n (lfu_freq (lfu_store (lfu_heap c1) n) + 1) (lfu_heap c1)\<rparr>;
               c3 = (if (case map_of (lfu_freqListMap c2) (lfu_minFreq c2) of
                           None \<Rightarrow> True
                         | Some fl \<Rightarrow> FreqList_isEmpty fl (lfu_heap c2))
                     then c2\<lparr>lfu_minFreq := lfu_minFreq c2 + 1\<rparr> else c2)
           in case LFU_addNodeToFreqList (Some n) c3 of
                None \<Rightarrow> None
              | Some c4 \<Rightarrow> Some ((True, lfu_val (lfu_store (lfu_heap c4) n)), c4))
      | None \<Rightarrow> Some ((False, val), c))"

text \<open>
  \<open>get(key)\<close>: \<open>Value val; get(key, val); return val;\<close> The local has no initialiser
  (\<open>LRUCache\<close> writes \<open>Value val{}\<close>): \<open>uv\<close> is what it holds.
\<close>

definition LFU_get1 :: "'v \<Rightarrow> 'k \<Rightarrow> ('k, 'v) LFUCache \<Rightarrow> ('v \<times> ('k, 'v) LFUCache) option" where
  "LFU_get1 uv key c =
     (case LFU_get key uv c of None \<Rightarrow> None | Some ((_, val), c1) \<Rightarrow> Some (val, c1))"

definition LFU_purge :: "('k, 'v) LFUCache \<Rightarrow> ('k, 'v) LFUCache" where
  "LFU_purge c = c\<lparr>lfu_cacheMap := [], lfu_freqListMap := [], lfu_minFreq := 0\<rparr>"

section \<open>LFU-Avg: \<open>src/LFU/CacheLFUAvg.h\<close>\<close>

text \<open>
  \<open>lfa_order\<close> is not a member of the class: it is the order in which the iterators of
  \<open>cacheMap_\<close> (an \<open>std::unordered_map\<close>) visit its entries, given to the constructor
  of the model as the argument \<open>order\<close>.
\<close>

record ('k, 'v) LFUAvgCache =
  lfa_capacity :: int
  lfa_minFreq :: int
  lfa_maxAvgFreq :: int
  lfa_currentAvgFreq :: int
  lfa_currentTotalFreq :: int
  lfa_cacheMap :: "('k \<times> ptr) list"
  lfa_freqListMap :: "(int \<times> FreqList) list"
  lfa_heap :: "('k, 'v) LFUHeap"
  lfa_order :: "('k \<times> ptr) list \<Rightarrow> ('k \<times> ptr) list"

definition INT8_MAX :: int where
  "INT8_MAX = 127"

definition LFUAvgCache_init ::
  "(('k \<times> ptr) list \<Rightarrow> ('k \<times> ptr) list) \<Rightarrow> 'k \<Rightarrow> 'v \<Rightarrow> int \<Rightarrow> int \<Rightarrow> ('k, 'v) LFUAvgCache" where
  "LFUAvgCache_init order dk dv capacity maxAvgFreq =
     \<lparr>lfa_capacity = capacity, lfa_minFreq = INT8_MAX, lfa_maxAvgFreq = maxAvgFreq,
      lfa_currentAvgFreq = 0, lfa_currentTotalFreq = 0, lfa_cacheMap = [],
      lfa_freqListMap = [], lfa_heap = LFUHeap_init dk dv, lfa_order = order\<rparr>"

definition LFUAvg_removeNodeFromFreqList ::
  "ptr option \<Rightarrow> ('k, 'v) LFUAvgCache \<Rightarrow> ('k, 'v) LFUAvgCache" where
  "LFUAvg_removeNodeFromFreqList node c =
     (case node of
        None \<Rightarrow> c
      | Some n \<Rightarrow>
          (let f = lfu_freq (lfu_store (lfa_heap c) n)
           in case map_of (lfa_freqListMap c) f of
                None \<Rightarrow> c
              | Some fl \<Rightarrow>
                  (let c1 = c\<lparr>lfa_heap := FreqList_removeNode node (lfa_heap c)\<rparr>
                   in if FreqList_getFirstNode fl (lfa_heap c1) = Some (fl_dummyTail fl)
                      then (let m = AList.delete f (lfa_freqListMap c1);
                                c2 = c1\<lparr>lfa_freqListMap := m\<rparr>
                            in if lfa_minFreq c2 = f
                               then c2\<lparr>lfa_minFreq := (if m = [] then 0 else lfa_minFreq c2 + 1)\<rparr>
                               else c2)
                      else c1)))"

definition LFUAvg_addNodeToFreqList ::
  "ptr option \<Rightarrow> ('k, 'v) LFUAvgCache \<Rightarrow> ('k, 'v) LFUAvgCache option" where
  "LFUAvg_addNodeToFreqList node c =
     (case node of
        None \<Rightarrow> Some c
      | Some n \<Rightarrow>
          (let f = lfu_freq (lfu_store (lfa_heap c) n);
               c1 = (case map_of (lfa_freqListMap c) f of
                       Some _ \<Rightarrow> c
                     | None \<Rightarrow>
                         (let (fl, h1) = FreqList_new f (lfa_heap c)
                          in c\<lparr>lfa_freqListMap := AList.update f fl (lfa_freqListMap c),
                               lfa_heap := h1\<rparr>))
           in case map_of (lfa_freqListMap c1) f of
                None \<Rightarrow> None
              | Some fl \<Rightarrow>
                  map_option (\<lambda>h. c1\<lparr>lfa_heap := h\<rparr>) (FreqList_addNode node fl (lfa_heap c1))))"

text \<open>
  \<open>updateMinFreq\<close>: the running minimum starts at \<open>INT8_MAX\<close>, is lowered by the
  frequency of every non-empty list, and a result that is still \<open>INT8_MAX\<close> is replaced
  by 1.
\<close>

definition LFUAvg_updateMinFreq :: "('k, 'v) LFUAvgCache \<Rightarrow> ('k, 'v) LFUAvgCache" where
  "LFUAvg_updateMinFreq c =
     (let m = fold (\<lambda>(f, fl) m. if \<not> FreqList_isEmpty fl (lfa_heap c) then min m f else m)
                (lfa_freqListMap c) INT8_MAX
      in c\<lparr>lfa_minFreq := (if m = INT8_MAX then 1 else m)\<rparr>)"

text \<open>
  The body of the loop of \<open>handleOverMaxAverageNum\<close>, for the nodes in the order in which
  the loop meets them: the node is
  taken off its list, its frequency lowered by \<open>maxAvgFreq_ / 2\<close> (C++ division, which
  truncates) and raised to 1 when it is not positive, and the node is put on the list of
  the new frequency.
\<close>

fun LFUAvg_age_nodes :: "ptr list \<Rightarrow> ('k, 'v) LFUAvgCache \<Rightarrow> ('k, 'v) LFUAvgCache option" where
  "LFUAvg_age_nodes [] c = Some c"
| "LFUAvg_age_nodes (n # ns) c =
     (let c1 = LFUAvg_removeNodeFromFreqList (Some n) c;
          f = lfu_freq (lfu_store (lfa_heap c1) n) - lfa_maxAvgFreq c1 sdiv 2;
          c2 = c1\<lparr>lfa_heap := lfu_set_freq n (if f \<le> 0 then 1 else f) (lfa_heap c1)\<rparr>
      in case LFUAvg_addNodeToFreqList (Some n) c2 of
           None \<Rightarrow> None
         | Some c3 \<Rightarrow> LFUAvg_age_nodes ns c3)"

text \<open>
  \<open>handleOverMaxAverageNum\<close>: the loop runs from \<open>cacheMap_.begin()\<close> to
  \<open>cacheMap_.end()\<close>, that is over the entries in the container's order \<open>lfa_order\<close>;
  \<open>updateMinFreq\<close> follows. (The loop of \<open>updateMinFreq\<close> over \<open>freqListMap_\<close> takes
  a minimum, which does not depend on the order.)
\<close>

definition LFUAvg_handleOverMaxAverageNum ::
  "('k, 'v) LFUAvgCache \<Rightarrow> ('k, 'v) LFUAvgCache option" where
  "LFUAvg_handleOverMaxAverageNum c =
     (if lfa_cacheMap c = [] then Some c
      else map_option LFUAvg_updateMinFreq
             (LFUAvg_age_nodes (map snd (lfa_order c (lfa_cacheMap c))) c))"

text \<open>
  \<open>currentTotalFreq_ / cacheMap_.size()\<close> divides an \<open>int\<close> by a \<open>size_t\<close>: the
  dividend is converted to \<open>size_t\<close> and the quotient back to \<open>int\<close>.
\<close>

definition LFUAvg_average :: "('k, 'v) LFUAvgCache \<Rightarrow> int" where
  "LFUAvg_average c =
     (if lfa_cacheMap c = [] then 0
      else int_of_size_t (size_t_of_int (lfa_currentTotalFreq c) div length (lfa_cacheMap c)))"

definition LFUAvg_addFreqNum :: "('k, 'v) LFUAvgCache \<Rightarrow> ('k, 'v) LFUAvgCache option" where
  "LFUAvg_addFreqNum c =
     (let c1 = c\<lparr>lfa_currentTotalFreq := lfa_currentTotalFreq c + 1\<rparr>;
          c2 = c1\<lparr>lfa_currentAvgFreq := LFUAvg_average c1\<rparr>
      in if lfa_currentAvgFreq c2 > lfa_maxAvgFreq c2
         then LFUAvg_handleOverMaxAverageNum c2 else Some c2)"

definition LFUAvg_decreaseFreqNum :: "int \<Rightarrow> ('k, 'v) LFUAvgCache \<Rightarrow> ('k, 'v) LFUAvgCache" where
  "LFUAvg_decreaseFreqNum num c =
     (let t = lfa_currentTotalFreq c - num;
          c1 = c\<lparr>lfa_currentTotalFreq := (if t < 0 then 0 else t)\<rparr>
      in c1\<lparr>lfa_currentAvgFreq := LFUAvg_average c1\<rparr>)"

text \<open>
  \<open>kickOut\<close>: \<open>freqListMap_[minFreq_]\<close> inserts a null \<open>FreqList*\<close> when the map has
  no list at \<open>minFreq_\<close>, and \<open>getFirstNode\<close> is then called through it; a null first
  node is dereferenced by \<open>node->key\<close>.
\<close>

definition LFUAvg_kickOut :: "('k, 'v) LFUAvgCache \<Rightarrow> ('k, 'v) LFUAvgCache option" where
  "LFUAvg_kickOut c =
     (case map_of (lfa_freqListMap c) (lfa_minFreq c) of
        None \<Rightarrow> None
      | Some fl \<Rightarrow>
          (let node = FreqList_getFirstNode fl (lfa_heap c);
               c1 = LFUAvg_removeNodeFromFreqList node c
           in case node of
                None \<Rightarrow> None
              | Some n \<Rightarrow>
                  Some (LFUAvg_decreaseFreqNum (lfu_freq (lfu_store (lfa_heap c1) n))
                    (c1\<lparr>lfa_cacheMap :=
                       AList.delete (lfu_key (lfu_store (lfa_heap c1) n)) (lfa_cacheMap c1)\<rparr>))))"

definition LFUAvg_putInternal ::
  "'k \<Rightarrow> 'v \<Rightarrow> ('k, 'v) LFUAvgCache \<Rightarrow> ('k, 'v) LFUAvgCache option" where
  "LFUAvg_putInternal key val c =
     (case (if length (lfa_cacheMap c) \<ge> size_t_of_int (lfa_capacity c)
            then LFUAvg_kickOut c else Some c) of
        None \<Rightarrow> None
      | Some c1 \<Rightarrow>
          (let (node, h) = LFU_make_shared (LFUNode_new key val) (lfa_heap c1);
               c2 = c1\<lparr>lfa_heap := h, lfa_cacheMap := AList.update key node (lfa_cacheMap c1)\<rparr>
           in case LFUAvg_addNodeToFreqList (Some node) c2 of
                None \<Rightarrow> None
              | Some c3 \<Rightarrow>
                  (case LFUAvg_addFreqNum c3 of
                     None \<Rightarrow> None
                   | Some c4 \<Rightarrow> Some (c4\<lparr>lfa_minFreq := min (lfa_minFreq c4) 1\<rparr>))))"

text \<open>
  \<open>getInternal\<close>: \<open>freqListMap_[node->freq - 1]->isEmpty()\<close> is evaluated only when
  \<open>node->freq - 1 == minFreq_\<close>, and goes through a null pointer when the map has no
  list at that frequency.
\<close>

definition LFUAvg_getInternal ::
  "ptr option \<Rightarrow> 'v \<Rightarrow> ('k, 'v) LFUAvgCache \<Rightarrow> ('v \<times> ('k, 'v) LFUAvgCache) option" where
  "LFUAvg_getInternal node val c =
     (case node of
        None \<Rightarrow> Some (val, c)
      | Some n \<Rightarrow>
          (let val1 = lfu_val (lfu_store (lfa_heap c) n);
               c1 = LFUAvg_removeNodeFromFreqList node c;
               c2 = c1\<lparr>lfa_heap :=
                      lfu_set_freq n (lfu_freq (lfu_store (lfa_heap c1) n) + 1) (lfa_heap c1)\<rparr>
           in case LFUAvg_addNodeToFreqList node c2 of
                None \<Rightarrow> None
              | Some c3 \<Rightarrow>
                  (let f = lfu_freq (lfu_store (lfa_heap c3) n)
                   in case (if f - 1 = lfa_minFreq c3
                            then (case map_of (lfa_freqListMap c3) (f - 1) of
                                    None \<Rightarrow> None
                                  | Some fl \<Rightarrow>
                                      Some (if FreqList_isEmpty fl (lfa_heap c3)
                                            then c3\<lparr>lfa_minFreq := lfa_minFreq c3 + 1\<rparr> else c3))
                            else Some c3) of
                        None \<Rightarrow> None
                      | Some c4 \<Rightarrow> map_option (\<lambda>c5. (val1, c5)) (LFUAvg_addFreqNum c4))))"

text \<open>
  \<open>put\<close>: on a resident key the value is overwritten and \<open>getInternal\<close> is called with
  the local \<open>Value cur_val;\<close>, whose content before the call is \<open>uv\<close>.
\<close>

definition LFUAvg_put :: "'v \<Rightarrow> 'k \<Rightarrow> 'v \<Rightarrow> ('k, 'v) LFUAvgCache \<Rightarrow> ('k, 'v) LFUAvgCache option" where
  "LFUAvg_put uv key val c =
     (if 0 = lfa_capacity c then Some c
      else case map_of (lfa_cacheMap c) key of
             Some n \<Rightarrow>
               map_option snd
                 (LFUAvg_getInternal (Some n) uv (c\<lparr>lfa_heap := lfu_set_val n val (lfa_heap c)\<rparr>))
           | None \<Rightarrow> LFUAvg_putInternal key val c)"

definition LFUAvg_get ::
  "'k \<Rightarrow> 'v \<Rightarrow> ('k, 'v) LFUAvgCache \<Rightarrow> ((bool \<times> 'v) \<times> ('k, 'v) LFUAvgCache) option" where
  "LFUAvg_get key val c =
     (case map_of (lfa_cacheMap c) key of
        Some n \<Rightarrow> map_option (\<lambda>(val1, c1). ((True, val1), c1)) (LFUAvg_getInternal (Some n) val c)
      | None \<Rightarrow> Some ((False, val), c))"

text \<open>
  \<open>get(key)\<close>: \<open>Value val; get(key, val); return val;\<close> The local has no initialiser:
  \<open>uv\<close> is what it holds.
\<close>

definition LFUAvg_get1 ::
  "'v \<Rightarrow> 'k \<Rightarrow> ('k, 'v) LFUAvgCache \<Rightarrow> ('v \<times> ('k, 'v) LFUAvgCache) option" where
  "LFUAvg_get1 uv key c =
     (case LFUAvg_get key uv c of None \<Rightarrow> None | Some ((_, val), c1) \<Rightarrow> Some (val, c1))"

definition LFUAvg_purge :: "('k, 'v) LFUAvgCache \<Rightarrow> ('k, 'v) LFUAvgCache" where
  "LFUAvg_purge c =
     c\<lparr>lfa_cacheMap := [], lfa_freqListMap := [], lfa_minFreq := INT8_MAX,
       lfa_currentAvgFreq := 0, lfa_currentTotalFreq := 0\<rparr>"

section \<open>Hash-sharded LFU: \<open>src/LFU/CacheLFUHash.h\<close>\<close>

text \<open>
  \<open>std::hash<Key>\<close> is the argument \<open>hashFunc\<close> (a \<open>size_t\<close> value) and
  \<open>std::thread::hardware_concurrency()\<close> the argument \<open>hw\<close>. The slice size is
  \<open>std::ceil(capacity / double(sliceNum_))\<close> converted to \<open>size_t\<close>: the conversion is
  undefined for an infinite, a NaN or a negative value, so the constructor has no result
  when \<open>sliceNum_\<close> is 0 or the quotient is negative. The argument \<open>order\<close> is the
  iteration order of the slices' \<open>cacheMap_\<close>.
\<close>

record ('k, 'v) LFUHashCache =
  lfh_capacity :: int
  lfh_sliceNum :: int
  lfh_lfuSliceCaches :: "('k, 'v) LFUAvgCache list"

definition LFUHashCache_init ::
  "(('k \<times> ptr) list \<Rightarrow> ('k \<times> ptr) list) \<Rightarrow> 'k \<Rightarrow> 'v \<Rightarrow> nat \<Rightarrow> int \<Rightarrow> int \<Rightarrow> int
     \<Rightarrow> ('k, 'v) LFUHashCache option" where
  "LFUHashCache_init order dk dv hw capacity sliceNu maxAvgFreq =
     (let sliceNum = (if sliceNu > 0 then sliceNu else int_of_size_t hw)
      in if sliceNum = 0 then None
         else (let q = - ((- capacity) div sliceNum)
               in if q < 0 then None
                  else Some \<lparr>lfh_capacity = capacity, lfh_sliceNum = sliceNum,
                         lfh_lfuSliceCaches =
                           replicate (nat sliceNum)
                             (LFUAvgCache_init order dk dv (int_of_size_t (nat q)) maxAvgFreq)\<rparr>))"

text \<open>
  \<open>Hash\<close> casts the hash to \<open>int\<close> and returns it as \<open>size_t\<close>; \<open>getSliceIndex\<close>
  takes it modulo \<open>sliceNum_\<close> (converted to \<open>size_t\<close>; a zero divisor is undefined) and
  casts to \<open>int\<close>; the callers store that in a \<open>size_t\<close>.
\<close>

definition LFUHash_Hash :: "('k \<Rightarrow> nat) \<Rightarrow> 'k \<Rightarrow> nat" where
  "LFUHash_Hash hashFunc key = size_t_of_int (int_of_size_t (hashFunc key))"

definition LFUHash_getSliceIndex ::
  "('k \<Rightarrow> nat) \<Rightarrow> 'k \<Rightarrow> ('k, 'v) LFUHashCache \<Rightarrow> int option" where
  "LFUHash_getSliceIndex hashFunc key w =
     (if size_t_of_int (lfh_sliceNum w) = 0 then None
      else Some (int_of_size_t (LFUHash_Hash hashFunc key mod size_t_of_int (lfh_sliceNum w))))"

definition LFUHash_put ::
  "('k \<Rightarrow> nat) \<Rightarrow> 'v \<Rightarrow> 'k \<Rightarrow> 'v \<Rightarrow> ('k, 'v) LFUHashCache \<Rightarrow> ('k, 'v) LFUHashCache option" where
  "LFUHash_put hashFunc uv key val w =
     (case LFUHash_getSliceIndex hashFunc key w of
        None \<Rightarrow> None
      | Some i \<Rightarrow>
          (let sliceIndex = size_t_of_int i
           in if sliceIndex < length (lfh_lfuSliceCaches w)
              then map_option
                     (\<lambda>c. w\<lparr>lfh_lfuSliceCaches := (lfh_lfuSliceCaches w)[sliceIndex := c]\<rparr>)
                     (LFUAvg_put uv key val (lfh_lfuSliceCaches w ! sliceIndex))
              else Some w))"

definition LFUHash_get ::
  "('k \<Rightarrow> nat) \<Rightarrow> 'k \<Rightarrow> 'v \<Rightarrow> ('k, 'v) LFUHashCache
     \<Rightarrow> ((bool \<times> 'v) \<times> ('k, 'v) LFUHashCache) option" where
  "LFUHash_get hashFunc key val w =
     (case LFUHash_getSliceIndex hashFunc key w of
        None \<Rightarrow> None
      | Some i \<Rightarrow>
          (let sliceIndex = size_t_of_int i
           in if sliceIndex < length (lfh_lfuSliceCaches w)
              then map_option
                     (\<lambda>(r, c). (r, w\<lparr>lfh_lfuSliceCaches := (lfh_lfuSliceCaches w)[sliceIndex := c]\<rparr>))
                     (LFUAvg_get key val (lfh_lfuSliceCaches w ! sliceIndex))
              else Some ((False, val), w)))"

text \<open>
  \<open>put\<close> hands \<open>uv\<close>, the content of the local \<open>cur_val\<close> of the slice's \<open>put\<close>, on
  to the slice. \<open>get(key)\<close>: \<open>Value val; get(key, val); return val;\<close> with \<open>uv\<close> the
  content of the local.
\<close>

definition LFUHash_get1 ::
  "('k \<Rightarrow> nat) \<Rightarrow> 'v \<Rightarrow> 'k \<Rightarrow> ('k, 'v) LFUHashCache \<Rightarrow> ('v \<times> ('k, 'v) LFUHashCache) option" where
  "LFUHash_get1 hashFunc uv key w =
     (case LFUHash_get hashFunc key uv w of None \<Rightarrow> None | Some ((_, val), w1) \<Rightarrow> Some (val, w1))"

text \<open>\<open>purge\<close>: every slice is purged, then the vector of slices is cleared.\<close>

definition LFUHash_purge :: "('k, 'v) LFUHashCache \<Rightarrow> ('k, 'v) LFUHashCache" where
  "LFUHash_purge w =
     (let w1 = w\<lparr>lfh_lfuSliceCaches := map LFUAvg_purge (lfh_lfuSliceCaches w)\<rparr>
      in w1\<lparr>lfh_lfuSliceCaches := []\<rparr>)"

section \<open>ARC: \<open>src/ARC\<close>\<close>

subsection \<open>\<open>ARCNode\<close>\<close>

record ('k, 'v) ARCNode =
  arc_key :: 'k
  arc_val :: 'v
  arc_count :: nat
  arc_prev :: "ptr option"
  arc_next :: "ptr option"

text \<open>
  The store of the \<open>ARCNode\<close>s of one half. \<open>arc_blank\<close> is the value of \<open>ARCNode()\<close>:
  count 1, default key and value, null links.
\<close>

record ('k, 'v) ARCHeap =
  arc_store :: "ptr \<Rightarrow> ('k, 'v) ARCNode"
  arc_fresh :: ptr
  arc_blank :: "('k, 'v) ARCNode"

definition ARCHeap_init :: "'k \<Rightarrow> 'v \<Rightarrow> ('k, 'v) ARCHeap" where
  "ARCHeap_init dk dv =
     (let b = \<lparr>arc_key = dk, arc_val = dv, arc_count = 1, arc_prev = None, arc_next = None\<rparr>
      in \<lparr>arc_store = (\<lambda>_. b), arc_fresh = 0, arc_blank = b\<rparr>)"

definition ARC_make_shared :: "('k, 'v) ARCNode \<Rightarrow> ('k, 'v) ARCHeap \<Rightarrow> ptr \<times> ('k, 'v) ARCHeap" where
  "ARC_make_shared n h =
     (arc_fresh h, h\<lparr>arc_store := (arc_store h)(arc_fresh h := n), arc_fresh := Suc (arc_fresh h)\<rparr>)"

definition ARCNode_new :: "'k \<Rightarrow> 'v \<Rightarrow> ('k, 'v) ARCNode" where
  "ARCNode_new key val =
     \<lparr>arc_key = key, arc_val = val, arc_count = 1, arc_prev = None, arc_next = None\<rparr>"

definition arc_set_prev :: "ptr \<Rightarrow> ptr option \<Rightarrow> ('k, 'v) ARCHeap \<Rightarrow> ('k, 'v) ARCHeap" where
  "arc_set_prev p q h = h\<lparr>arc_store := (arc_store h)(p := (arc_store h p)\<lparr>arc_prev := q\<rparr>)\<rparr>"

definition arc_set_next :: "ptr \<Rightarrow> ptr option \<Rightarrow> ('k, 'v) ARCHeap \<Rightarrow> ('k, 'v) ARCHeap" where
  "arc_set_next p q h = h\<lparr>arc_store := (arc_store h)(p := (arc_store h p)\<lparr>arc_next := q\<rparr>)\<rparr>"

definition arc_set_val :: "ptr \<Rightarrow> 'v \<Rightarrow> ('k, 'v) ARCHeap \<Rightarrow> ('k, 'v) ARCHeap" where
  "arc_set_val p v h = h\<lparr>arc_store := (arc_store h)(p := (arc_store h p)\<lparr>arc_val := v\<rparr>)\<rparr>"

definition arc_set_count :: "ptr \<Rightarrow> nat \<Rightarrow> ('k, 'v) ARCHeap \<Rightarrow> ('k, 'v) ARCHeap" where
  "arc_set_count p n h = h\<lparr>arc_store := (arc_store h)(p := (arc_store h p)\<lparr>arc_count := n\<rparr>)\<rparr>"

text \<open>
  The unlinking block that \<open>moveToFront\<close>, \<open>removeFromMainCache\<close> and both
  \<open>removeFromGhostCache\<close> share word for word: when both links of the node are set, the
  predecessor's \<open>next\<close> is redirected; then, when the node's \<open>next\<close> is (still) set, the
  successor's \<open>prev_\<close> is redirected and both links of the node are set to null.
\<close>

definition ARCNode_unlink :: "ptr \<Rightarrow> ('k, 'v) ARCHeap \<Rightarrow> ('k, 'v) ARCHeap" where
  "ARCNode_unlink node h =
     (case (arc_prev (arc_store h node), arc_next (arc_store h node)) of
        (Some prev, Some nxt) \<Rightarrow>
          (let h1 = arc_set_next prev (Some nxt) h
           in case arc_next (arc_store h1 node) of
                None \<Rightarrow> h1
              | Some nxt1 \<Rightarrow>
                  arc_set_prev node None (arc_set_next node None
                    (arc_set_prev nxt1 (arc_prev (arc_store h1 node)) h1)))
      | _ \<Rightarrow> h)"

definition size_t_decr :: "nat \<Rightarrow> nat" where
  "size_t_decr n = (if n = 0 then 2 ^ 64 - 1 else n - 1)"

subsection \<open>The recency half: \<open>src/ARC/CacheARCLRUPart.h\<close>\<close>

text \<open>
  The four sentinels are assigned once, in \<open>initializeCache\<close>, so the checks
  \<open>if (mainTail_)\<close> and \<open>if (ghostTail_)\<close> of the source always succeed.
\<close>

record ('k, 'v) ARCLRUCache =
  alru_capacity :: nat
  alru_ghostCapacity :: nat
  alru_transformThreshold :: nat
  alru_mainCache :: "('k \<times> ptr) list"
  alru_ghostCache :: "('k \<times> ptr) list"
  alru_mainHead :: ptr
  alru_mainTail :: ptr
  alru_ghostHead :: ptr
  alru_ghostTail :: ptr
  alru_heap :: "('k, 'v) ARCHeap"

definition ARCLRUCache_init :: "'k \<Rightarrow> 'v \<Rightarrow> nat \<Rightarrow> nat \<Rightarrow> ('k, 'v) ARCLRUCache" where
  "ARCLRUCache_init dk dv capacity transformThreshold =
     (let h0 = ARCHeap_init dk dv;
          (mh, h1) = ARC_make_shared (arc_blank h0) h0;
          (mt, h2) = ARC_make_shared (arc_blank h1) h1;
          h3 = arc_set_prev mt (Some mh) (arc_set_next mh (Some mt) h2);
          (gh, h4) = ARC_make_shared (arc_blank h3) h3;
          (gt, h5) = ARC_make_shared (arc_blank h4) h4;
          h6 = arc_set_prev gt (Some gh) (arc_set_next gh (Some gt) h5)
      in \<lparr>alru_capacity = capacity, alru_ghostCapacity = capacity,
          alru_transformThreshold = transformThreshold, alru_mainCache = [],
          alru_ghostCache = [], alru_mainHead = mh, alru_mainTail = mt,
          alru_ghostHead = gh, alru_ghostTail = gt, alru_heap = h6\<rparr>)"

text \<open>\<open>addToFront\<close>: \<open>mainHead_->next->prev_\<close> dereferences the head's successor.\<close>

definition ARCLRU_addToFront :: "ptr \<Rightarrow> ('k, 'v) ARCLRUCache \<Rightarrow> ('k, 'v) ARCLRUCache option" where
  "ARCLRU_addToFront node c =
     (let mh = alru_mainHead c; mt = alru_mainTail c;
          h1 = arc_set_next node (arc_next (arc_store (alru_heap c) mh)) (alru_heap c)
      in case arc_next (arc_store h1 mh) of
           None \<Rightarrow> None
         | Some s \<Rightarrow>
             (let h2 = arc_set_prev node (Some mh)
                         (arc_set_next mh (Some node) (arc_set_prev s (Some node) h1));
                  h3 = (if arc_prev (arc_store h2 mt) = None
                        then arc_set_prev mt (Some node) h2 else h2)
              in Some (c\<lparr>alru_heap := h3\<rparr>)))"

definition ARCLRU_moveToFront :: "ptr \<Rightarrow> ('k, 'v) ARCLRUCache \<Rightarrow> ('k, 'v) ARCLRUCache option" where
  "ARCLRU_moveToFront node c =
     ARCLRU_addToFront node (c\<lparr>alru_heap := ARCNode_unlink node (alru_heap c)\<rparr>)"

definition ARCLRU_removeFromMainCache :: "ptr \<Rightarrow> ('k, 'v) ARCLRUCache \<Rightarrow> ('k, 'v) ARCLRUCache" where
  "ARCLRU_removeFromMainCache node c = c\<lparr>alru_heap := ARCNode_unlink node (alru_heap c)\<rparr>"

definition ARCLRU_removeFromGhostCache :: "ptr \<Rightarrow> ('k, 'v) ARCLRUCache \<Rightarrow> ('k, 'v) ARCLRUCache" where
  "ARCLRU_removeFromGhostCache node c = c\<lparr>alru_heap := ARCNode_unlink node (alru_heap c)\<rparr>"

text \<open>
  \<open>addToGhostCache\<close>: the count is reset to 1, the node entered in \<open>ghostCache_\<close> and
  linked behind the ghost head; \<open>ghostHead_->next->prev_\<close> dereferences the head's
  successor.
\<close>

definition ARCLRU_addToGhostCache ::
  "ptr \<Rightarrow> ('k, 'v) ARCLRUCache \<Rightarrow> ('k, 'v) ARCLRUCache option" where
  "ARCLRU_addToGhostCache node c =
     (let gh = alru_ghostHead c; gt = alru_ghostTail c;
          h0 = arc_set_count node 1 (alru_heap c);
          g = AList.update (arc_key (arc_store h0 node)) node (alru_ghostCache c);
          h1 = arc_set_prev node (Some gh) (arc_set_next node (arc_next (arc_store h0 gh)) h0)
      in case arc_next (arc_store h1 gh) of
           None \<Rightarrow> None
         | Some s \<Rightarrow>
             (let h2 = arc_set_next gh (Some node) (arc_set_prev s (Some node) h1);
                  h3 = (if arc_prev (arc_store h2 gt) = None
                        then arc_set_prev gt (Some node) h2 else h2)
              in Some (c\<lparr>alru_ghostCache := g, alru_heap := h3\<rparr>)))"

definition ARCLRU_removeOldestGhostNode :: "('k, 'v) ARCLRUCache \<Rightarrow> ('k, 'v) ARCLRUCache" where
  "ARCLRU_removeOldestGhostNode c =
     (case arc_prev (arc_store (alru_heap c) (alru_ghostTail c)) of
        None \<Rightarrow> c
      | Some oldestGhostNode \<Rightarrow>
          if oldestGhostNode = alru_ghostHead c then c
          else (let c1 = ARCLRU_removeFromGhostCache oldestGhostNode c
                in c1\<lparr>alru_ghostCache :=
                     AList.delete (arc_key (arc_store (alru_heap c1) oldestGhostNode))
                       (alru_ghostCache c1)\<rparr>))"

definition ARCLRU_evictLeastRecent :: "('k, 'v) ARCLRUCache \<Rightarrow> ('k, 'v) ARCLRUCache option" where
  "ARCLRU_evictLeastRecent c =
     (case arc_prev (arc_store (alru_heap c) (alru_mainTail c)) of
        None \<Rightarrow> Some c
      | Some leastRecentNode \<Rightarrow>
          if leastRecentNode = alru_mainHead c then Some c
          else (let c1 = ARCLRU_removeFromMainCache leastRecentNode c;
                    c2 = (if length (alru_ghostCache c1) \<ge> alru_ghostCapacity c1
                          then ARCLRU_removeOldestGhostNode c1 else c1)
                in case ARCLRU_addToGhostCache leastRecentNode c2 of
                     None \<Rightarrow> None
                   | Some c3 \<Rightarrow>
                       Some (c3\<lparr>alru_mainCache :=
                         AList.delete (arc_key (arc_store (alru_heap c3) leastRecentNode))
                           (alru_mainCache c3)\<rparr>)))"

definition ARCLRU_updateExistingNode ::
  "ptr \<Rightarrow> 'v \<Rightarrow> ('k, 'v) ARCLRUCache \<Rightarrow> (bool \<times> ('k, 'v) ARCLRUCache) option" where
  "ARCLRU_updateExistingNode node value c =
     map_option (\<lambda>c1. (True, c1))
       (ARCLRU_moveToFront node (c\<lparr>alru_heap := arc_set_val node value (alru_heap c)\<rparr>))"

definition ARCLRU_addNewNode ::
  "'k \<Rightarrow> 'v \<Rightarrow> ('k, 'v) ARCLRUCache \<Rightarrow> (bool \<times> ('k, 'v) ARCLRUCache) option" where
  "ARCLRU_addNewNode key value c =
     (case (if length (alru_mainCache c) \<ge> alru_capacity c
            then ARCLRU_evictLeastRecent c else Some c) of
        None \<Rightarrow> None
      | Some c1 \<Rightarrow>
          (let (newNode, h) = ARC_make_shared (ARCNode_new key value) (alru_heap c1);
               c2 = c1\<lparr>alru_heap := h,
                       alru_mainCache := AList.update key newNode (alru_mainCache c1)\<rparr>
           in map_option (\<lambda>c3. (True, c3)) (ARCLRU_addToFront newNode c2)))"

text \<open>
  \<open>updateNodeAccess\<close>: the node is moved to the front, its count incremented, and the
  result says whether the count has reached the threshold.
\<close>

definition ARCLRU_updateNodeAccess ::
  "ptr \<Rightarrow> ('k, 'v) ARCLRUCache \<Rightarrow> (bool \<times> ('k, 'v) ARCLRUCache) option" where
  "ARCLRU_updateNodeAccess node c =
     (case ARCLRU_moveToFront node c of
        None \<Rightarrow> None
      | Some c1 \<Rightarrow>
          (let n = size_t_incr (arc_count (arc_store (alru_heap c1) node));
               c2 = c1\<lparr>alru_heap := arc_set_count node n (alru_heap c1)\<rparr>
           in Some (n \<ge> alru_transformThreshold c2, c2)))"

text \<open>
  \<open>get(key, value, shouldTransform)\<close>: the arguments \<open>value\<close> and \<open>shouldTransform\<close>
  are the contents of the caller's variables before the call; the result carries the
  returned flag and both contents after the call.
\<close>

definition ARCLRU_get ::
  "'k \<Rightarrow> 'v \<Rightarrow> bool \<Rightarrow> ('k, 'v) ARCLRUCache
     \<Rightarrow> ((bool \<times> 'v \<times> bool) \<times> ('k, 'v) ARCLRUCache) option" where
  "ARCLRU_get key value shouldTransform c =
     (case map_of (alru_mainCache c) key of
        Some node \<Rightarrow>
          (case ARCLRU_updateNodeAccess node c of
             None \<Rightarrow> None
           | Some (st, c1) \<Rightarrow> Some ((True, arc_val (arc_store (alru_heap c1) node), st), c1))
      | None \<Rightarrow> Some ((False, value, shouldTransform), c))"

definition ARCLRU_put ::
  "'k \<Rightarrow> 'v \<Rightarrow> ('k, 'v) ARCLRUCache \<Rightarrow> (bool \<times> ('k, 'v) ARCLRUCache) option" where
  "ARCLRU_put key value c =
     (if 0 = alru_capacity c then Some (False, c)
      else case map_of (alru_mainCache c) key of
             Some node \<Rightarrow> ARCLRU_updateExistingNode node value c
           | None \<Rightarrow> ARCLRU_addNewNode key value c)"

definition ARCLRU_checkGhost :: "'k \<Rightarrow> ('k, 'v) ARCLRUCache \<Rightarrow> bool \<times> ('k, 'v) ARCLRUCache" where
  "ARCLRU_checkGhost key c =
     (case map_of (alru_ghostCache c) key of
        Some node \<Rightarrow>
          (let c1 = ARCLRU_removeFromGhostCache node c
           in (True, c1\<lparr>alru_ghostCache := AList.delete key (alru_ghostCache c1)\<rparr>))
      | None \<Rightarrow> (False, c))"

definition ARCLRU_increaseCapacity :: "('k, 'v) ARCLRUCache \<Rightarrow> ('k, 'v) ARCLRUCache" where
  "ARCLRU_increaseCapacity c =
     c\<lparr>alru_capacity := size_t_incr (alru_capacity c),
       alru_ghostCapacity := size_t_incr (alru_ghostCapacity c)\<rparr>"

text \<open>
  \<open>decreaseCapacity\<close>: a capacity of 0 returns false at once; otherwise a full main
  cache evicts one entry, a full ghost cache drops its oldest, and both capacities go
  down by one.
\<close>

definition ARCLRU_decreaseCapacity ::
  "('k, 'v) ARCLRUCache \<Rightarrow> (bool \<times> ('k, 'v) ARCLRUCache) option" where
  "ARCLRU_decreaseCapacity c =
     (if 0 \<ge> alru_capacity c then Some (False, c)
      else case (if length (alru_mainCache c) = alru_capacity c
                 then ARCLRU_evictLeastRecent c else Some c) of
             None \<Rightarrow> None
           | Some c1 \<Rightarrow>
               (let c2 = (if length (alru_ghostCache c1) = alru_ghostCapacity c1
                          then ARCLRU_removeOldestGhostNode c1 else c1)
                in Some (True, c2\<lparr>alru_capacity := size_t_decr (alru_capacity c2),
                                   alru_ghostCapacity := size_t_decr (alru_ghostCapacity c2)\<rparr>)))"

subsection \<open>The frequency half: \<open>src/ARC/CacheARCLFUPart.h\<close>\<close>

text \<open>
  \<open>freqMap_\<close> is an \<open>std::map<size_t, std::list<NodePtr>>\<close>: an association list
  from a frequency to the nodes of that frequency, oldest first. \<open>freqMap_.begin()\<close> is
  the entry with the least key.
\<close>

record ('k, 'v) ARCLFUCache =
  alfu_capacity :: nat
  alfu_ghostCapacity :: nat
  alfu_transformThreshold :: nat
  alfu_minFreq :: nat
  alfu_mainCache :: "('k \<times> ptr) list"
  alfu_ghostCache :: "('k \<times> ptr) list"
  alfu_freqMap :: "(nat \<times> ptr list) list"
  alfu_ghostHead :: ptr
  alfu_ghostTail :: ptr
  alfu_heap :: "('k, 'v) ARCHeap"

definition ARCLFUCache_init :: "'k \<Rightarrow> 'v \<Rightarrow> nat \<Rightarrow> nat \<Rightarrow> ('k, 'v) ARCLFUCache" where
  "ARCLFUCache_init dk dv capacity transformThreshold =
     (let h0 = ARCHeap_init dk dv;
          (gh, h1) = ARC_make_shared (arc_blank h0) h0;
          (gt, h2) = ARC_make_shared (arc_blank h1) h1;
          h3 = arc_set_prev gt (Some gh) (arc_set_next gh (Some gt) h2)
      in \<lparr>alfu_capacity = capacity, alfu_ghostCapacity = capacity,
          alfu_transformThreshold = transformThreshold, alfu_minFreq = 0,
          alfu_mainCache = [], alfu_ghostCache = [], alfu_freqMap = [],
          alfu_ghostHead = gh, alfu_ghostTail = gt, alfu_heap = h3\<rparr>)"

definition FreqMap_begin :: "(nat \<times> ptr list) list \<Rightarrow> nat" where
  "FreqMap_begin m = fold min (map fst m) (fst (hd m))"

definition ARCLFU_removeFromGhostCache :: "ptr \<Rightarrow> ('k, 'v) ARCLFUCache \<Rightarrow> ('k, 'v) ARCLFUCache" where
  "ARCLFU_removeFromGhostCache node c = c\<lparr>alfu_heap := ARCNode_unlink node (alfu_heap c)\<rparr>"

text \<open>\<open>addToGhostCache\<close> of this half appends before the ghost tail, every step guarded.\<close>

definition ARCLFU_addToGhostCache :: "ptr \<Rightarrow> ('k, 'v) ARCLFUCache \<Rightarrow> ('k, 'v) ARCLFUCache" where
  "ARCLFU_addToGhostCache node c =
     (let gh = alfu_ghostHead c; gt = alfu_ghostTail c;
          h1 = arc_set_next node (Some gt) (alfu_heap c);
          h2 = arc_set_prev node (arc_prev (arc_store h1 gt)) h1;
          h3 = (case arc_prev (arc_store h2 gt) of
                  None \<Rightarrow> h2
                | Some p \<Rightarrow> arc_set_next p (Some node) h2);
          h4 = arc_set_prev gt (Some node) h3;
          h5 = (if arc_next (arc_store h4 gh) = None then arc_set_next gh (Some node) h4 else h4)
      in c\<lparr>alfu_heap := h5,
           alfu_ghostCache := AList.update (arc_key (arc_store h5 node)) node (alfu_ghostCache c)\<rparr>)"

definition ARCLFU_removeOldestGhostNode :: "('k, 'v) ARCLFUCache \<Rightarrow> ('k, 'v) ARCLFUCache" where
  "ARCLFU_removeOldestGhostNode c =
     (case arc_next (arc_store (alfu_heap c) (alfu_ghostHead c)) of
        None \<Rightarrow> c
      | Some oldestNode \<Rightarrow>
          if oldestNode = alfu_ghostTail c then c
          else (let c1 = ARCLFU_removeFromGhostCache oldestNode c;
                    c2 = c1\<lparr>alfu_ghostCache :=
                           AList.delete (arc_key (arc_store (alfu_heap c1) oldestNode))
                             (alfu_ghostCache c1)\<rparr>
                in c2\<lparr>alfu_heap :=
                     arc_set_prev oldestNode None (arc_set_next oldestNode None (alfu_heap c2))\<rparr>))"

text \<open>
  \<open>evictLeastRecent\<close>: nothing happens when \<open>freqMap_\<close> is empty or has no entry at
  \<open>minFreq_\<close>. An empty list at \<open>minFreq_\<close> is erased and the least entry taken
  instead; \<open>front()\<close> of an empty list is undefined.
\<close>

definition ARCLFU_evictLeastRecent :: "('k, 'v) ARCLFUCache \<Rightarrow> ('k, 'v) ARCLFUCache option" where
  "ARCLFU_evictLeastRecent c =
     (if alfu_freqMap c = [] then Some c
      else case map_of (alfu_freqMap c) (alfu_minFreq c) of
             None \<Rightarrow> Some c
           | Some l0 \<Rightarrow>
               (let m1 = (if l0 = [] then AList.delete (alfu_minFreq c) (alfu_freqMap c)
                          else alfu_freqMap c)
                in if l0 = [] \<and> m1 = [] then Some (c\<lparr>alfu_freqMap := m1, alfu_minFreq := 0\<rparr>)
                   else (let f = (if l0 = [] then FreqMap_begin m1 else alfu_minFreq c)
                         in case map_of m1 f of
                              None \<Rightarrow> None
                            | Some [] \<Rightarrow> None
                            | Some (leastRecentNode # rest) \<Rightarrow>
                                (let m2 = (if rest = [] then AList.delete f m1
                                           else AList.update f rest m1);
                                     mf = (if rest = []
                                           then (if m2 \<noteq> [] then FreqMap_begin m2 else 0)
                                           else alfu_minFreq c);
                                     c1 = c\<lparr>alfu_freqMap := m2, alfu_minFreq := mf\<rparr>;
                                     c2 = (if length (alfu_ghostCache c1) \<ge> alfu_ghostCapacity c1
                                           then ARCLFU_removeOldestGhostNode c1 else c1);
                                     c3 = ARCLFU_addToGhostCache leastRecentNode c2
                                 in Some (c3\<lparr>alfu_mainCache :=
                                      AList.delete
                                        (arc_key (arc_store (alfu_heap c3) leastRecentNode))
                                        (alfu_mainCache c3)\<rparr>)))))"

text \<open>
  \<open>updateNodeFrequency\<close>: the count goes up by one; the node leaves the list of the old
  count (\<open>std::list::remove\<close> drops every occurrence), an emptied list is erased, and the
  node is appended to the list of the new count.
\<close>

definition ARCLFU_updateNodeFrequency :: "ptr \<Rightarrow> ('k, 'v) ARCLFUCache \<Rightarrow> ('k, 'v) ARCLFUCache" where
  "ARCLFU_updateNodeFrequency node c =
     (let oldFreq = arc_count (arc_store (alfu_heap c) node);
          newFreq = size_t_incr oldFreq;
          c1 = c\<lparr>alfu_heap := arc_set_count node newFreq (alfu_heap c)\<rparr>
      in if oldFreq = newFreq then c1
         else (let c2 = (case map_of (alfu_freqMap c1) oldFreq of
                           None \<Rightarrow> c1
                         | Some nodeList \<Rightarrow>
                             (let l = removeAll node nodeList
                              in if l = []
                                 then c1\<lparr>alfu_freqMap := AList.delete oldFreq (alfu_freqMap c1),
                                         alfu_minFreq := (if alfu_minFreq c1 = oldFreq then newFreq
                                                          else alfu_minFreq c1)\<rparr>
                                 else c1\<lparr>alfu_freqMap := AList.update oldFreq l (alfu_freqMap c1)\<rparr>));
                    l2 = (case map_of (alfu_freqMap c2) newFreq of None \<Rightarrow> [] | Some l \<Rightarrow> l)
                in c2\<lparr>alfu_freqMap := AList.update newFreq (l2 @ [node]) (alfu_freqMap c2),
                      alfu_minFreq := min (alfu_minFreq c2) newFreq\<rparr>))"

definition ARCLFU_updateExistingNode ::
  "ptr \<Rightarrow> 'v \<Rightarrow> ('k, 'v) ARCLFUCache \<Rightarrow> bool \<times> ('k, 'v) ARCLFUCache" where
  "ARCLFU_updateExistingNode node value c =
     (True, ARCLFU_updateNodeFrequency node (c\<lparr>alfu_heap := arc_set_val node value (alfu_heap c)\<rparr>))"

definition ARCLFU_addNewNode ::
  "'k \<Rightarrow> 'v \<Rightarrow> ('k, 'v) ARCLFUCache \<Rightarrow> (bool \<times> ('k, 'v) ARCLFUCache) option" where
  "ARCLFU_addNewNode key value c =
     (case (if length (alfu_mainCache c) \<ge> alfu_capacity c
            then ARCLFU_evictLeastRecent c else Some c) of
        None \<Rightarrow> None
      | Some c1 \<Rightarrow>
          (let (newNode, h) = ARC_make_shared (ARCNode_new key value) (alfu_heap c1);
               l = (case map_of (alfu_freqMap c1) 1 of None \<Rightarrow> [] | Some l \<Rightarrow> l)
           in Some (True,
                c1\<lparr>alfu_heap := h,
                   alfu_mainCache := AList.update key newNode (alfu_mainCache c1),
                   alfu_freqMap := AList.update 1 (l @ [newNode]) (alfu_freqMap c1),
                   alfu_minFreq := 1\<rparr>)))"

definition ARCLFU_get ::
  "'k \<Rightarrow> 'v \<Rightarrow> ('k, 'v) ARCLFUCache \<Rightarrow> (bool \<times> 'v) \<times> ('k, 'v) ARCLFUCache" where
  "ARCLFU_get key value c =
     (case map_of (alfu_mainCache c) key of
        Some node \<Rightarrow>
          (let c1 = ARCLFU_updateNodeFrequency node c
           in ((True, arc_val (arc_store (alfu_heap c1) node)), c1))
      | None \<Rightarrow> ((False, value), c))"

definition ARCLFU_put ::
  "'k \<Rightarrow> 'v \<Rightarrow> ('k, 'v) ARCLFUCache \<Rightarrow> (bool \<times> ('k, 'v) ARCLFUCache) option" where
  "ARCLFU_put key value c =
     (if 0 = alfu_capacity c then Some (False, c)
      else case map_of (alfu_mainCache c) key of
             Some node \<Rightarrow> Some (ARCLFU_updateExistingNode node value c)
           | None \<Rightarrow> ARCLFU_addNewNode key value c)"

definition ARCLFU_contains :: "'k \<Rightarrow> ('k, 'v) ARCLFUCache \<Rightarrow> bool" where
  "ARCLFU_contains key c = (map_of (alfu_mainCache c) key \<noteq> None)"

definition ARCLFU_checkGhost :: "'k \<Rightarrow> ('k, 'v) ARCLFUCache \<Rightarrow> bool \<times> ('k, 'v) ARCLFUCache" where
  "ARCLFU_checkGhost key c =
     (case map_of (alfu_ghostCache c) key of
        Some node \<Rightarrow>
          (let c1 = ARCLFU_removeFromGhostCache node c
           in (True, c1\<lparr>alfu_ghostCache := AList.delete key (alfu_ghostCache c1)\<rparr>))
      | None \<Rightarrow> (False, c))"

definition ARCLFU_increaseCapacity :: "('k, 'v) ARCLFUCache \<Rightarrow> ('k, 'v) ARCLFUCache" where
  "ARCLFU_increaseCapacity c =
     c\<lparr>alfu_capacity := size_t_incr (alfu_capacity c),
       alfu_ghostCapacity := size_t_incr (alfu_ghostCapacity c)\<rparr>"

definition ARCLFU_decreaseCapacity ::
  "('k, 'v) ARCLFUCache \<Rightarrow> (bool \<times> ('k, 'v) ARCLFUCache) option" where
  "ARCLFU_decreaseCapacity c =
     (if 0 \<ge> alfu_capacity c then Some (False, c)
      else case (if length (alfu_mainCache c) = alfu_capacity c
                 then ARCLFU_evictLeastRecent c else Some c) of
             None \<Rightarrow> None
           | Some c1 \<Rightarrow>
               (let c2 = (if length (alfu_ghostCache c1) = alfu_ghostCapacity c1
                          then ARCLFU_removeOldestGhostNode c1 else c1)
                in Some (True, c2\<lparr>alfu_capacity := size_t_decr (alfu_capacity c2),
                                   alfu_ghostCapacity := size_t_decr (alfu_ghostCapacity c2)\<rparr>)))"

subsection \<open>\<open>ARCCache\<close>: \<open>src/ARC/CacheARC.h\<close>\<close>

record ('k, 'v) ARCCache =
  arc_capacity :: nat
  arc_transformThreshold :: nat
  arc_lruCache :: "('k, 'v) ARCLRUCache"
  arc_lfuCache :: "('k, 'v) ARCLFUCache"

definition ARCCache_init :: "'k \<Rightarrow> 'v \<Rightarrow> nat \<Rightarrow> nat \<Rightarrow> ('k, 'v) ARCCache" where
  "ARCCache_init dk dv capacity transformThreshold =
     \<lparr>arc_capacity = capacity, arc_transformThreshold = transformThreshold,
      arc_lruCache = ARCLRUCache_init dk dv capacity transformThreshold,
      arc_lfuCache = ARCLFUCache_init dk dv capacity transformThreshold\<rparr>"

text \<open>
  \<open>checkGhost\<close>: a hit in the recency half's ghost list shrinks the frequency half and,
  when that succeeded, grows the recency half; otherwise a hit in the frequency half's
  ghost list does the same the other way round.
\<close>

definition ARC_checkGhost :: "'k \<Rightarrow> ('k, 'v) ARCCache \<Rightarrow> (bool \<times> ('k, 'v) ARCCache) option" where
  "ARC_checkGhost key a =
     (case ARCLRU_checkGhost key (arc_lruCache a) of
        (True, l1) \<Rightarrow>
          (case ARCLFU_decreaseCapacity (arc_lfuCache a) of
             None \<Rightarrow> None
           | Some (True, f1) \<Rightarrow>
               Some (True, a\<lparr>arc_lruCache := ARCLRU_increaseCapacity l1, arc_lfuCache := f1\<rparr>)
           | Some (False, f1) \<Rightarrow> Some (True, a\<lparr>arc_lruCache := l1, arc_lfuCache := f1\<rparr>))
      | (False, l1) \<Rightarrow>
          (case ARCLFU_checkGhost key (arc_lfuCache a) of
             (True, f1) \<Rightarrow>
               (case ARCLRU_decreaseCapacity l1 of
                  None \<Rightarrow> None
                | Some (True, l2) \<Rightarrow>
                    Some (True, a\<lparr>arc_lruCache := l2, arc_lfuCache := ARCLFU_increaseCapacity f1\<rparr>)
                | Some (False, l2) \<Rightarrow> Some (True, a\<lparr>arc_lruCache := l2, arc_lfuCache := f1\<rparr>))
           | (False, f1) \<Rightarrow> Some (False, a\<lparr>arc_lruCache := l1, arc_lfuCache := f1\<rparr>)))"

definition ARC_get ::
  "'k \<Rightarrow> 'v \<Rightarrow> ('k, 'v) ARCCache \<Rightarrow> ((bool \<times> 'v) \<times> ('k, 'v) ARCCache) option" where
  "ARC_get key value a =
     (case ARC_checkGhost key a of
        None \<Rightarrow> None
      | Some (_, a1) \<Rightarrow>
          (case ARCLRU_get key value False (arc_lruCache a1) of
             None \<Rightarrow> None
           | Some ((True, value1, shouldTransform), l1) \<Rightarrow>
               if shouldTransform
               then map_option (\<lambda>(_, f1). ((True, value1), a1\<lparr>arc_lruCache := l1, arc_lfuCache := f1\<rparr>))
                      (ARCLFU_put key value1 (arc_lfuCache a1))
               else Some ((True, value1), a1\<lparr>arc_lruCache := l1\<rparr>)
           | Some ((False, value1, shouldTransform), l1) \<Rightarrow>
               (case ARCLFU_get key value1 (arc_lfuCache a1) of
                  (r, f1) \<Rightarrow> Some (r, a1\<lparr>arc_lruCache := l1, arc_lfuCache := f1\<rparr>))))"

definition ARC_put :: "'k \<Rightarrow> 'v \<Rightarrow> ('k, 'v) ARCCache \<Rightarrow> ('k, 'v) ARCCache option" where
  "ARC_put key value a =
     (case ARC_checkGhost key a of
        None \<Rightarrow> None
      | Some (_, a1) \<Rightarrow>
          (let inLfu = ARCLFU_contains key (arc_lfuCache a1)
           in case ARCLRU_put key value (arc_lruCache a1) of
                None \<Rightarrow> None
              | Some (_, l1) \<Rightarrow>
                  if inLfu
                  then map_option (\<lambda>(_, f1). a1\<lparr>arc_lruCache := l1, arc_lfuCache := f1\<rparr>)
                         (ARCLFU_put key value (arc_lfuCache a1))
                  else Some (a1\<lparr>arc_lruCache := l1\<rparr>)))"

text \<open>
  \<open>get(key)\<close>: \<open>Value value; if (get(key, value)) return value;
  throw std::runtime_error("Key not found in cache");\<close> The local has no initialiser:
  \<open>uv\<close> is what it holds. The exception leaves the cache in the state the two-argument
  \<open>get\<close> produced.
\<close>

datatype arc_exception = runtime_error string

definition ARC_get1 ::
  "'v \<Rightarrow> 'k \<Rightarrow> ('k, 'v) ARCCache \<Rightarrow> ((arc_exception + 'v) \<times> ('k, 'v) ARCCache) option" where
  "ARC_get1 uv key a =
     (case ARC_get key uv a of
        None \<Rightarrow> None
      | Some ((True, value), a1) \<Rightarrow> Some (Inr value, a1)
      | Some ((False, value), a1) \<Rightarrow> Some (Inl (runtime_error ''Key not found in cache''), a1))"

section \<open>Clients: sequences of operations\<close>

text \<open>
  A client that calls \<open>put(k, v)\<close> and the two-argument \<open>get(k, out)\<close> in turn. For every
  \<open>Get\<close> the client's variable \<open>out\<close> holds \<open>dv\<close> before the call; the run collects the
  returned flag and the content of \<open>out\<close> after each \<open>get\<close>. A run has no result when one
  of its calls has none. The runs of \<open>LFUAvgCache\<close> and \<open>LFUHashCache\<close> give the same
  \<open>dv\<close> to \<open>put\<close> for its uninitialised local, which \<open>put\<close> overwrites before it reads
  it (\<open>LFUAvg_put_local\<close> below).
\<close>

datatype ('k, 'v) cache_op = Put 'k 'v | Get 'k

fun LRU_run ::
  "'v \<Rightarrow> ('k, 'v) cache_op list \<Rightarrow> ('k, 'v) LRUCache
     \<Rightarrow> ((bool \<times> 'v) list \<times> ('k, 'v) LRUCache) option" where
  "LRU_run dv [] c = Some ([], c)"
| "LRU_run dv (Put k v # ops) c =
     (case LRU_put k v c of None \<Rightarrow> None | Some c1 \<Rightarrow> LRU_run dv ops c1)"
| "LRU_run dv (Get k # ops) c =
     (case LRU_get k dv c of
        None \<Rightarrow> None
      | Some (r, c1) \<Rightarrow>
          (case LRU_run dv ops c1 of None \<Rightarrow> None | Some (rs, c2) \<Rightarrow> Some (r # rs, c2)))"

fun LRUK_run ::
  "'v \<Rightarrow> ('k, 'v) cache_op list \<Rightarrow> ('k, 'v) LRUKCache
     \<Rightarrow> ((bool \<times> 'v) list \<times> ('k, 'v) LRUKCache) option" where
  "LRUK_run dv [] c = Some ([], c)"
| "LRUK_run dv (Put k v # ops) c =
     (case LRUK_put dv k v c of None \<Rightarrow> None | Some c1 \<Rightarrow> LRUK_run dv ops c1)"
| "LRUK_run dv (Get k # ops) c =
     (case LRUK_get k dv c of
        None \<Rightarrow> None
      | Some (r, c1) \<Rightarrow>
          (case LRUK_run dv ops c1 of None \<Rightarrow> None | Some (rs, c2) \<Rightarrow> Some (r # rs, c2)))"

fun LFU_run ::
  "'v \<Rightarrow> ('k, 'v) cache_op list \<Rightarrow> ('k, 'v) LFUCache
     \<Rightarrow> ((bool \<times> 'v) list \<times> ('k, 'v) LFUCache) option" where
  "LFU_run dv [] c = Some ([], c)"
| "LFU_run dv (Put k v # ops) c =
     (case LFU_put k v c of None \<Rightarrow> None | Some c1 \<Rightarrow> LFU_run dv ops c1)"
| "LFU_run dv (Get k # ops) c =
     (case LFU_get k dv c of
        None \<Rightarrow> None
      | Some (r, c1) \<Rightarrow>
          (case LFU_run dv ops c1 of None \<Rightarrow> None | Some (rs, c2) \<Rightarrow> Some (r # rs, c2)))"

fun LFUAvg_run ::
  "'v \<Rightarrow> ('k, 'v) cache_op list \<Rightarrow> ('k, 'v) LFUAvgCache
     \<Rightarrow> ((bool \<times> 'v) list \<times> ('k, 'v) LFUAvgCache) option" where
  "LFUAvg_run dv [] c = Some ([], c)"
| "LFUAvg_run dv (Put k v # ops) c =
     (case LFUAvg_put dv k v c of None \<Rightarrow> None | Some c1 \<Rightarrow> LFUAvg_run dv ops c1)"
| "LFUAvg_run dv (Get k # ops) c =
     (case LFUAvg_get k dv c of
        None \<Rightarrow> None
      | Some (r, c1) \<Rightarrow>
          (case LFUAvg_run dv ops c1 of None \<Rightarrow> None | Some (rs, c2) \<Rightarrow> Some (r # rs, c2)))"

fun LFUHash_run ::
  "('k \<Rightarrow> nat) \<Rightarrow> 'v \<Rightarrow> ('k, 'v) cache_op list \<Rightarrow> ('k, 'v) LFUHashCache
     \<Rightarrow> ((bool \<times> 'v) list \<times> ('k, 'v) LFUHashCache) option" where
  "LFUHash_run hashFunc dv [] w = Some ([], w)"
| "LFUHash_run hashFunc dv (Put k v # ops) w =
     (case LFUHash_put hashFunc dv k v w of
        None \<Rightarrow> None
      | Some w1 \<Rightarrow> LFUHash_run hashFunc dv ops w1)"
| "LFUHash_run hashFunc dv (Get k # ops) w =
     (case LFUHash_get hashFunc k dv w of
        None \<Rightarrow> None
      | Some (r, w1) \<Rightarrow>
          (case LFUHash_run hashFunc dv ops w1 of
             None \<Rightarrow> None
           | Some (rs, w2) \<Rightarrow> Some (r # rs, w2)))"

fun ARC_run ::
  "'v \<Rightarrow> ('k, 'v) cache_op list \<Rightarrow> ('k, 'v) ARCCache
     \<Rightarrow> ((bool \<times> 'v) list \<times> ('k, 'v) ARCCache) option" where
  "ARC_run dv [] a = Some ([], a)"
| "ARC_run dv (Put k v # ops) a =
     (case ARC_put k v a of None \<Rightarrow> None | Some a1 \<Rightarrow> ARC_run dv ops a1)"
| "ARC_run dv (Get k # ops) a =
     (case ARC_get k dv a of
        None \<Rightarrow> None
      | Some (r, a1) \<Rightarrow>
          (case ARC_run dv ops a1 of None \<Rightarrow> None | Some (rs, a2) \<Rightarrow> Some (r # rs, a2)))"

section \<open>Observations used by the properties\<close>

text \<open>The number of resident keys of each policy: the size of its key-to-node map.\<close>

definition LRU_resident :: "('k, 'v) LRUCache \<Rightarrow> nat" where
  "LRU_resident c = length (lru_nodeMap c)"

definition LFU_resident :: "('k, 'v) LFUCache \<Rightarrow> nat" where
  "LFU_resident c = length (lfu_cacheMap c)"

text \<open>
  The smallest frequency whose list in the frequency-to-list map is non-empty, \<open>None\<close>
  when there is no such list.
\<close>

definition least_nonempty_freq :: "(int \<times> FreqList) list \<Rightarrow> ('k, 'v) LFUHeap \<Rightarrow> int option" where
  "least_nonempty_freq m h =
     (case filter (\<lambda>(f, fl). \<not> FreqList_isEmpty fl h) m of
        [] \<Rightarrow> None
      | (f, fl) # rest \<Rightarrow> Some (fold min (map fst rest) f))"

text \<open>The sum of the capacities of the two halves of an \<open>ARCCache\<close>.\<close>

definition ARC_capacity_sum :: "('k, 'v) ARCCache \<Rightarrow> nat" where
  "ARC_capacity_sum a = alru_capacity (arc_lruCache a) + alfu_capacity (arc_lfuCache a)"

text \<open>
  The shape of an \<open>LFUAvgCache\<close> that holds exactly one key, whose node lives at address 0
  with frequency \<open>f\<close> and is the only node of the only list, the one at \<open>f\<close>, with
  sentinels at \<open>H\<close> and \<open>H + 1\<close>; the total frequency is \<open>f\<close> as well, and the
  container visits its one entry. Nothing is said about the sentinels of lists that were
  deleted.
\<close>

definition LFUAvg_single ::
  "'k \<Rightarrow> 'v \<Rightarrow> int \<Rightarrow> int \<Rightarrow> int \<Rightarrow> int \<Rightarrow> ptr \<Rightarrow> ('k, 'v) LFUAvgCache \<Rightarrow> bool" where
  "LFUAvg_single key val cap maxAvg f mf H c =
     (lfa_capacity c = cap \<and> lfa_maxAvgFreq c = maxAvg \<and> lfa_minFreq c = mf \<and>
      lfa_currentTotalFreq c = f \<and>
      lfa_cacheMap c = [(key, 0)] \<and> lfa_order c [(key, 0)] = [(key, 0)] \<and>
      lfa_freqListMap c = [(f, \<lparr>fl_freq = f, fl_dummyHead = H, fl_dummyTail = Suc H\<rparr>)] \<and>
      0 < H \<and> lfu_fresh (lfa_heap c) = Suc (Suc H) \<and>
      lfu_store (lfa_heap c) 0 =
        \<lparr>lfu_freq = f, lfu_key = key, lfu_val = val, lfu_prev = Some H, lfu_next = Some (Suc H)\<rparr> \<and>
      lfu_next (lfu_store (lfa_heap c) H) = Some 0 \<and>
      lfu_prev (lfu_store (lfa_heap c) (Suc H)) = Some 0 \<and>
      lfu_prev (lfu_blank (lfa_heap c)) = None \<and> lfu_next (lfu_blank (lfa_heap c)) = None)"

section \<open>Unfolding the model\<close>

lemmas lru_defs =
  LRUCache_init_def LRU_get_def LRU_get1_def LRU_put_def LRU_addNode_def LRU_make_shared_def
  LRU_insertNode_def LRU_removeNode_def LRU_moveToMostRecent_def LRU_updateExistingNode_def
  LRU_remove_def LRU_evictLeastRecent_def lru_set_next_def lru_set_prev_def lru_set_val_def
  size_t_incr_def size_t_of_int_def LRUNode_new_def LRU_resident_def

lemmas lruk_defs = LRUK_put_def LRUK_get_def LRUK_get1_def LRUKCache_init_def

lemmas freqlist_defs =
  LFUHeap_init_def LFU_make_shared_def LFUNode_new_def lfu_set_prev_def lfu_set_next_def
  lfu_set_val_def lfu_set_freq_def FreqList_new_def FreqList_isEmpty_def FreqList_addNode_def
  FreqList_removeNode_def FreqList_getFirstNode_def size_t_of_int_def int_of_size_t_def
  least_nonempty_freq_def

lemmas lfu_defs =
  LFUCache_init_def LFU_removeNodeFromFreqList_def LFU_addNodeToFreqList_def LFU_put_def
  LFU_get_def LFU_get1_def LFU_resident_def

lemmas lfa_defs =
  LFUAvgCache_init_def LFUAvg_removeNodeFromFreqList_def LFUAvg_addNodeToFreqList_def
  LFUAvg_put_def LFUAvg_get_def LFUAvg_get1_def LFUAvg_updateMinFreq_def
  LFUAvg_handleOverMaxAverageNum_def LFUAvg_average_def LFUAvg_addFreqNum_def
  LFUAvg_decreaseFreqNum_def LFUAvg_kickOut_def LFUAvg_putInternal_def LFUAvg_getInternal_def
  INT8_MAX_def signed_divide_int_def

lemmas arc_defs =
  ARCCache_init_def ARCLRUCache_init_def ARCLFUCache_init_def ARCHeap_init_def
  ARC_make_shared_def ARCNode_new_def arc_set_prev_def arc_set_next_def arc_set_val_def
  arc_set_count_def ARCNode_unlink_def size_t_decr_def size_t_incr_def ARCLRU_addToFront_def
  ARCLRU_moveToFront_def ARCLRU_removeFromMainCache_def ARCLRU_removeFromGhostCache_def
  ARCLRU_addToGhostCache_def ARCLRU_removeOldestGhostNode_def ARCLRU_evictLeastRecent_def
  ARCLRU_updateExistingNode_def ARCLRU_addNewNode_def ARCLRU_updateNodeAccess_def ARCLRU_get_def
  ARCLRU_put_def ARCLRU_checkGhost_def ARCLRU_increaseCapacity_def ARCLRU_decreaseCapacity_def
  FreqMap_begin_def ARCLFU_removeFromGhostCache_def ARCLFU_addToGhostCache_def
  ARCLFU_removeOldestGhostNode_def ARCLFU_evictLeastRecent_def ARCLFU_updateNodeFrequency_def
  ARCLFU_updateExistingNode_def ARCLFU_addNewNode_def ARCLFU_get_def ARCLFU_put_def
  ARCLFU_contains_def ARCLFU_checkGhost_def ARCLFU_increaseCapacity_def
  ARCLFU_decreaseCapacity_def ARC_checkGhost_def ARC_get_def ARC_put_def ARC_get1_def
  ARC_capacity_sum_def

lemmas lfh_defs =
  LFUHashCache_init_def LFUHash_Hash_def LFUHash_getSliceIndex_def LFUHash_put_def
  LFUHash_get_def LFUHash_get1_def LFUHash_purge_def LFUAvg_purge_def

section \<open>Locals without an initialiser\<close>

text \<open>
  \<open>LFUAvgCache::put\<close> hands its local \<open>cur_val\<close> to \<open>getInternal\<close>, which assigns to
  it and never reads it: the content of the local has no effect on \<open>put\<close>, nor on the
  \<open>put\<close> of the sharded cache.
\<close>

lemma LFUAvg_put_local: "LFUAvg_put uv key val c = LFUAvg_put uv' key val c"
  unfolding LFUAvg_put_def LFUAvg_getInternal_def option.case by (rule refl)

lemma LFUHash_put_local: "LFUHash_put hashFunc uv key val w = LFUHash_put hashFunc uv' key val w"
  unfolding LFUHash_put_def LFUAvg_put_local[of uv key val _ uv'] by (rule refl)

section \<open>LRU: the links of a removed node\<close>

text \<open>
  Claim C9 says that a node removed from any of the lists has both \<open>prev\<close> and \<open>next\<close>
  cleared. In an \<open>LRUCache\<close> of capacity 1, \<open>put(1, "a"); put(2, "b")\<close> evicts the node
  of key 1 (address 2): key 1 has left the map and the node's \<open>next_\<close> is null, but its
  \<open>prev_\<close> still points to the head sentinel (address 0).
\<close>

theorem LRU_evicted_node_keeps_prev:
  "map_option
     (\<lambda>(rs, c). (map fst (lru_nodeMap c), lru_key (lru_store c 2), lru_next (lru_store c 2),
                 lru_prev (lru_store c 2), lru_dummyHead c))
     (LRU_run '''' [Put (1::int) ''a'', Put 2 ''b''] (LRUCache_init 0 '''' 1))
   = Some ([2], 1, None, Some 0, 0)"
  by (simp add: lru_defs Let_def)

text \<open>
  The sibling paths do clear both links: \<open>FreqList::removeNode\<close> and the unlinking block
  of the ARC halves leave a removed node with two null links.
\<close>

lemma FreqList_removeNode_clears:
  "lfu_prev (lfu_store h n) = Some p \<Longrightarrow> lfu_next (lfu_store h n) = Some q \<Longrightarrow>
   lfu_prev (lfu_store (FreqList_removeNode (Some n) h) n) = None \<and>
   lfu_next (lfu_store (FreqList_removeNode (Some n) h) n) = None"
  by (simp add: FreqList_removeNode_def lfu_set_next_def lfu_set_prev_def)

section \<open>LFU: capacity, \<open>minFreq_\<close> and \<open>put\<close> on a resident key\<close>

text \<open>
  Claim C1 says that the number of resident keys never exceeds the declared capacity.
  In an \<open>LFUCache\<close> of capacity 1, \<open>put(1, "a"); get(1); put(2, "b")\<close> ends with the
  two keys 1 and 2 in \<open>cacheMap_\<close>: after the \<open>get\<close>, \<open>minFreq_\<close> is 1 while the only
  list is the one at frequency 2, so the eviction guard of \<open>put\<close> finds no list at
  \<open>minFreq_\<close> and evicts nothing.
\<close>

theorem LFU_capacity_exceeded:
  "map_option (\<lambda>(rs, c). (rs, lfu_capacity c, LFU_resident c, map fst (lfu_cacheMap c)))
     (LFU_run '''' [Put (1::int) ''a'', Get 1, Put 2 ''b''] (LFUCache_init 0 '''' 1))
   = Some ([(True, ''a'')], 1, 2, [1, 2])"
  by (simp add: lfu_defs freqlist_defs Let_def)

text \<open>
  Claim C6 says that after every public operation \<open>minFreq_\<close> is the smallest frequency
  with a non-empty list. In an \<open>LFUCache\<close> of capacity 1, after \<open>put(1, "a"); get(1)\<close>
  the only list is at frequency 2 and \<open>minFreq_\<close> is 1: \<open>removeNodeFromFreqList\<close> has
  reset it to 0 when the list at 1 was erased, and \<open>get\<close> has then incremented it.
\<close>

theorem LFU_minFreq_stale:
  "map_option
     (\<lambda>(rs, c). (lfu_minFreq c, map fst (lfu_freqListMap c),
                 least_nonempty_freq (lfu_freqListMap c) (lfu_heap c)))
     (LFU_run '''' [Put (1::int) ''a'', Get 1] (LFUCache_init 0 '''' 1))
   = Some (1, [2], Some 2)"
  by (simp add: lfu_defs freqlist_defs Let_def)

text \<open>
  Claim C5 says that \<open>put\<close> on a resident key overwrites the value and then registers an
  access as \<open>get\<close> does. In an \<open>LFUCache\<close> of capacity 2, after
  \<open>put(1, "a"); put(1, "b")\<close> the node of key 1 (address 0) holds \<open>"b"\<close> with frequency
  still 1 on the list at frequency 1; and after
  \<open>put(1, "a"); put(2, "b"); put(1, "c"); put(3, "d")\<close> it is key 1 that was evicted,
  as the oldest node of frequency 1: \<open>get(1)\<close> misses and \<open>get(2)\<close> hits.
\<close>

theorem LFU_put_resident_no_access:
  "map_option
     (\<lambda>(rs, c). (lfu_val (lfu_store (lfu_heap c) 0), lfu_freq (lfu_store (lfu_heap c) 0),
                 map fst (lfu_freqListMap c), lfu_minFreq c))
     (LFU_run '''' [Put (1::int) ''a'', Put 1 ''b''] (LFUCache_init 0 '''' 2))
   = Some (''b'', 1, [1], 1) \<and>
   map_option fst
     (LFU_run '''' [Put (1::int) ''a'', Put 2 ''b'', Put 1 ''c'', Put 3 ''d'', Get 1, Get 2]
        (LFUCache_init 0 '''' 2))
   = Some [(False, ''''), (True, ''b'')]"
  by (simp add: lfu_defs freqlist_defs Let_def)

section \<open>LRU-K: the literal scenario\<close>

text \<open>
  Claim C4 says that on \<open>LRUKCache(2, 4, 2)\<close> the \<open>get(1)\<close> after the first
  \<open>put(1, "a")\<close> misses. It hits: \<open>get\<close> counts as an access, so it is the second
  access of key 1, the counter reaches \<open>k_\<close> and the pending value is promoted.
\<close>

theorem LRUK_first_get_hits:
  "map_option fst
     (LRUK_run '''' [Put (1::int) ''a'', Get 1] (LRUKCache_init 0 '''' 2 4 2))
   = Some [(True, ''a'')]"
  by (simp add: lru_defs lruk_defs Let_def)

text \<open>
  Claim C4 as amended: on \<open>LRUKCache(2, 4, 2)\<close>, starting empty, after \<open>put(1, "a")\<close>
  the call \<open>get(1)\<close> hits and yields \<open>"a"\<close>; after a second \<open>put(1, "a")\<close>, \<open>get(1)\<close>
  hits and yields \<open>"a"\<close>.
\<close>

theorem LRUK_scenario:
  "map_option fst
     (LRUK_run '''' [Put (1::int) ''a'', Get 1, Put 1 ''a'', Get 1] (LRUKCache_init 0 '''' 2 4 2))
   = Some [(True, ''a''), (True, ''a'')]"
  by (simp add: lru_defs lruk_defs Let_def)

section \<open>ARC: the capacities of the two halves\<close>

subsection \<open>What each operation of a half does to its capacity and to its main map\<close>

lemma alru_cap_addToFront:
  "ARCLRU_addToFront n c = Some c' \<Longrightarrow> alru_capacity c' = alru_capacity c \<and> alru_mainCache c' = alru_mainCache c"
  by (auto simp: ARCLRU_addToFront_def Let_def split: option.splits)

lemma alru_cap_moveToFront:
  "ARCLRU_moveToFront n c = Some c' \<Longrightarrow> alru_capacity c' = alru_capacity c \<and> alru_mainCache c' = alru_mainCache c"
  by (auto simp: ARCLRU_moveToFront_def dest!: alru_cap_addToFront)

lemma alru_cap_removeOldestGhostNode:
  "alru_capacity (ARCLRU_removeOldestGhostNode c) = alru_capacity c \<and>
   alru_mainCache (ARCLRU_removeOldestGhostNode c) = alru_mainCache c"
  by (simp add: ARCLRU_removeOldestGhostNode_def ARCLRU_removeFromGhostCache_def Let_def split: option.splits)

lemma alru_cap_addToGhostCache:
  "ARCLRU_addToGhostCache n c = Some c' \<Longrightarrow> alru_capacity c' = alru_capacity c \<and> alru_mainCache c' = alru_mainCache c"
  by (auto simp: ARCLRU_addToGhostCache_def Let_def split: option.splits)

lemma map_of_delete_None: "map_of m k = None \<Longrightarrow> map_of (AList.delete k' m) k = None"
  by (simp add: delete_conv)

lemma alru_cap_evictLeastRecent:
  "ARCLRU_evictLeastRecent c = Some c' \<Longrightarrow> alru_capacity c' = alru_capacity c \<and> 
     (map_of (alru_mainCache c) k = None \<longrightarrow> map_of (alru_mainCache c') k = None)"
  by (auto simp: ARCLRU_evictLeastRecent_def ARCLRU_removeFromMainCache_def Let_def alru_cap_removeOldestGhostNode map_of_delete_None
       split: option.splits if_splits dest!: alru_cap_addToGhostCache)


lemma alru_decreaseCapacity_True:
  "ARCLRU_decreaseCapacity c = Some (True, c') \<Longrightarrow>
     0 < alru_capacity c \<and> alru_capacity c' = alru_capacity c - 1 \<and>
     (map_of (alru_mainCache c) k = None \<longrightarrow> map_of (alru_mainCache c') k = None)"
  by (auto simp: ARCLRU_decreaseCapacity_def Let_def size_t_decr_def alru_cap_removeOldestGhostNode
       split: option.splits if_splits dest!: alru_cap_evictLeastRecent[where k = k])

lemma alru_decreaseCapacity_False:
  "ARCLRU_decreaseCapacity c = Some (False, c') \<Longrightarrow> c' = c \<and> alru_capacity c = 0"
  by (auto simp: ARCLRU_decreaseCapacity_def Let_def split: option.splits if_splits)

lemma alru_decreaseCapacity_zero:
  "alru_capacity c = 0 \<Longrightarrow> ARCLRU_decreaseCapacity c = Some (False, c)"
  by (simp add: ARCLRU_decreaseCapacity_def)

lemma alru_checkGhost:
  "ARCLRU_checkGhost key c = (b, c') \<Longrightarrow>
     alru_capacity c' = alru_capacity c \<and> alru_mainCache c' = alru_mainCache c"
  by (auto simp: ARCLRU_checkGhost_def ARCLRU_removeFromGhostCache_def Let_def split: option.splits)

lemma alru_get_cap:
  "ARCLRU_get key v st c = Some (r, c') \<Longrightarrow> alru_capacity c' = alru_capacity c"
  by (auto simp: ARCLRU_get_def ARCLRU_updateNodeAccess_def Let_def
       split: option.splits dest!: alru_cap_moveToFront)

lemma alru_get_miss:
  "map_of (alru_mainCache c) key = None \<Longrightarrow> ARCLRU_get key v st c = Some ((False, v, st), c)"
  by (simp add: ARCLRU_get_def)

lemma alru_put_cap:
  "ARCLRU_put key v c = Some (r, c') \<Longrightarrow> alru_capacity c' = alru_capacity c"
  by (auto simp: ARCLRU_put_def ARCLRU_updateExistingNode_def ARCLRU_addNewNode_def Let_def ARC_make_shared_def
       split: option.splits if_splits dest!: alru_cap_moveToFront alru_cap_addToFront alru_cap_evictLeastRecent[where k = key])

lemma alfu_cap_removeOldestGhostNode:
  "alfu_capacity (ARCLFU_removeOldestGhostNode c) = alfu_capacity c \<and>
   alfu_mainCache (ARCLFU_removeOldestGhostNode c) = alfu_mainCache c"
  by (simp add: ARCLFU_removeOldestGhostNode_def ARCLFU_removeFromGhostCache_def Let_def split: option.splits)

lemma alfu_cap_addToGhostCache:
  "alfu_capacity (ARCLFU_addToGhostCache n c) = alfu_capacity c \<and>
   alfu_mainCache (ARCLFU_addToGhostCache n c) = alfu_mainCache c"
  by (simp add: ARCLFU_addToGhostCache_def Let_def split: option.splits)

lemma alfu_cap_evictLeastRecent:
  "ARCLFU_evictLeastRecent c = Some c' \<Longrightarrow> alfu_capacity c' = alfu_capacity c \<and>
     (map_of (alfu_mainCache c) k = None \<longrightarrow> map_of (alfu_mainCache c') k = None)"
  by (auto simp: ARCLFU_evictLeastRecent_def Let_def alfu_cap_removeOldestGhostNode alfu_cap_addToGhostCache
                 map_of_delete_None
       split: option.splits if_splits list.splits)

lemma alfu_decreaseCapacity_True:
  "ARCLFU_decreaseCapacity c = Some (True, c') \<Longrightarrow>
     0 < alfu_capacity c \<and> alfu_capacity c' = alfu_capacity c - 1 \<and>
     (map_of (alfu_mainCache c) k = None \<longrightarrow> map_of (alfu_mainCache c') k = None)"
  by (auto simp: ARCLFU_decreaseCapacity_def Let_def size_t_decr_def alfu_cap_removeOldestGhostNode
       split: option.splits if_splits dest!: alfu_cap_evictLeastRecent[where k = k])

lemma alfu_decreaseCapacity_False:
  "ARCLFU_decreaseCapacity c = Some (False, c') \<Longrightarrow> c' = c \<and> alfu_capacity c = 0"
  by (auto simp: ARCLFU_decreaseCapacity_def Let_def split: option.splits if_splits)

lemma alfu_decreaseCapacity_zero:
  "alfu_capacity c = 0 \<Longrightarrow> ARCLFU_decreaseCapacity c = Some (False, c)"
  by (simp add: ARCLFU_decreaseCapacity_def)

lemma alfu_checkGhost:
  "ARCLFU_checkGhost key c = (b, c') \<Longrightarrow>
     alfu_capacity c' = alfu_capacity c \<and> alfu_mainCache c' = alfu_mainCache c"
  by (auto simp: ARCLFU_checkGhost_def ARCLFU_removeFromGhostCache_def Let_def split: option.splits)

lemma alfu_cap_updateNodeFrequency:
  "alfu_capacity (ARCLFU_updateNodeFrequency n c) = alfu_capacity c"
  by (simp add: ARCLFU_updateNodeFrequency_def Let_def split: option.splits)

lemma alfu_get_cap:
  "ARCLFU_get key v c = (r, c') \<Longrightarrow> alfu_capacity c' = alfu_capacity c"
  by (auto simp: ARCLFU_get_def Let_def alfu_cap_updateNodeFrequency split: option.splits)

lemma alfu_get_miss:
  "map_of (alfu_mainCache c) key = None \<Longrightarrow> ARCLFU_get key v c = ((False, v), c)"
  by (simp add: ARCLFU_get_def)

lemma alfu_put_cap:
  "ARCLFU_put key v c = Some (r, c') \<Longrightarrow> alfu_capacity c' = alfu_capacity c"
  by (auto simp: ARCLFU_put_def ARCLFU_updateExistingNode_def ARCLFU_addNewNode_def Let_def ARC_make_shared_def
                 alfu_cap_updateNodeFrequency
       split: option.splits if_splits dest!: alfu_cap_evictLeastRecent[where k = key])

subsection \<open>\<open>checkGhost\<close> and the operations of \<open>ARCCache\<close>\<close>

lemma size_t_incr_small: "n + 1 < 2 ^ 64 \<Longrightarrow> size_t_incr n = n + 1"
  by (simp add: size_t_incr_def)

lemma ARC_checkGhost_cases:
  assumes "ARC_checkGhost key a = Some (hit, a')"
  shows "(alru_capacity (arc_lruCache a') = alru_capacity (arc_lruCache a) \<and>
          alfu_capacity (arc_lfuCache a') = alfu_capacity (arc_lfuCache a))
       \<or> (0 < alfu_capacity (arc_lfuCache a) \<and>
          alfu_capacity (arc_lfuCache a') = alfu_capacity (arc_lfuCache a) - 1 \<and>
          alru_capacity (arc_lruCache a') = size_t_incr (alru_capacity (arc_lruCache a)))
       \<or> (0 < alru_capacity (arc_lruCache a) \<and>
          alru_capacity (arc_lruCache a') = alru_capacity (arc_lruCache a) - 1 \<and>
          alfu_capacity (arc_lfuCache a') = size_t_incr (alfu_capacity (arc_lfuCache a)))"
  using assms
  by (auto simp: ARC_checkGhost_def ARCLRU_increaseCapacity_def ARCLFU_increaseCapacity_def
      split: prod.splits bool.splits option.splits
      dest!: alru_checkGhost alfu_checkGhost alru_decreaseCapacity_True alfu_decreaseCapacity_True
             alru_decreaseCapacity_False alfu_decreaseCapacity_False)

lemma ARC_checkGhost_sum:
  assumes "ARC_checkGhost key a = Some (hit, a')" and "ARC_capacity_sum a < 2 ^ 64"
  shows "ARC_capacity_sum a' = ARC_capacity_sum a"
  using ARC_checkGhost_cases[OF assms(1)] assms(2)
  by (auto simp: ARC_capacity_sum_def size_t_incr_small)

lemma ARC_checkGhost_absent:
  assumes "ARC_checkGhost key a = Some (hit, a')"
    and "map_of (alru_mainCache (arc_lruCache a)) k = None"
    and "map_of (alfu_mainCache (arc_lfuCache a)) k = None"
  shows "map_of (alru_mainCache (arc_lruCache a')) k = None \<and>
         map_of (alfu_mainCache (arc_lfuCache a')) k = None"
  using assms
  by (auto simp: ARC_checkGhost_def ARCLRU_increaseCapacity_def ARCLFU_increaseCapacity_def
      split: prod.splits bool.splits option.splits
      dest!: alru_checkGhost alfu_checkGhost alru_decreaseCapacity_True[where k = k] alfu_decreaseCapacity_True[where k = k]
             alru_decreaseCapacity_False alfu_decreaseCapacity_False)

lemma ARC_get_sum:
  assumes "ARC_get key v a = Some (r, a')" and "ARC_capacity_sum a < 2 ^ 64"
  shows "ARC_capacity_sum a' = ARC_capacity_sum a"
proof -
  from assms(1) obtain hit a1 where cg: "ARC_checkGhost key a = Some (hit, a1)"
    by (auto simp: ARC_get_def split: option.splits)
  have s1: "ARC_capacity_sum a1 = ARC_capacity_sum a"
    by (rule ARC_checkGhost_sum[OF cg assms(2)])
  from assms(1) cg have "alru_capacity (arc_lruCache a') = alru_capacity (arc_lruCache a1) \<and>
      alfu_capacity (arc_lfuCache a') = alfu_capacity (arc_lfuCache a1)"
    by (auto simp: ARC_get_def split: option.splits prod.splits bool.splits if_splits
        dest!: alru_get_cap alfu_get_cap alfu_put_cap)
  then show ?thesis using s1 by (simp add: ARC_capacity_sum_def)
qed

lemma ARC_put_sum:
  assumes "ARC_put key v a = Some a'" and "ARC_capacity_sum a < 2 ^ 64"
  shows "ARC_capacity_sum a' = ARC_capacity_sum a"
proof -
  from assms(1) obtain hit a1 where cg: "ARC_checkGhost key a = Some (hit, a1)"
    by (auto simp: ARC_put_def split: option.splits)
  have s1: "ARC_capacity_sum a1 = ARC_capacity_sum a"
    by (rule ARC_checkGhost_sum[OF cg assms(2)])
  from assms(1) cg have "alru_capacity (arc_lruCache a') = alru_capacity (arc_lruCache a1) \<and>
      alfu_capacity (arc_lfuCache a') = alfu_capacity (arc_lfuCache a1)"
    by (auto simp: ARC_put_def Let_def split: option.splits prod.splits bool.splits if_splits
        dest!: alru_put_cap alfu_put_cap)
  then show ?thesis using s1 by (simp add: ARC_capacity_sum_def)
qed

lemma ARC_run_sum:
  "ARC_run dv ops a = Some (rs, a') \<Longrightarrow> ARC_capacity_sum a < 2 ^ 64 \<Longrightarrow>
     ARC_capacity_sum a' = ARC_capacity_sum a"
proof (induction ops arbitrary: a rs)
  case Nil
  then show ?case by simp
next
  case (Cons x ops)
  show ?case
  proof (cases x)
    case (Put k v)
    with Cons.prems obtain a1 where p: "ARC_put k v a = Some a1" and r: "ARC_run dv ops a1 = Some (rs, a')"
      by (auto split: option.splits)
    have "ARC_capacity_sum a1 = ARC_capacity_sum a" by (rule ARC_put_sum[OF p Cons.prems(2)])
    with Cons.IH[OF r] Cons.prems(2) show ?thesis by simp
  next
    case (Get k)
    with Cons.prems obtain r1 a1 rs1 where p: "ARC_get k dv a = Some (r1, a1)" and r: "ARC_run dv ops a1 = Some (rs1, a')"
      by (auto split: option.splits)
    have "ARC_capacity_sum a1 = ARC_capacity_sum a" by (rule ARC_get_sum[OF p Cons.prems(2)])
    with Cons.IH[OF r] Cons.prems(2) show ?thesis by simp
  qed
qed

lemma ARC_init_sum: "ARC_capacity_sum (ARCCache_init dk dv C T) = 2 * C"
  by (simp add: ARC_capacity_sum_def ARCCache_init_def ARCLRUCache_init_def ARCLFUCache_init_def
      Let_def ARC_make_shared_def split: prod.splits)

text \<open>
  Claim C2 says that the capacities of the two halves add up to the total capacity \<open>C\<close>.
  The constructor gives each half the whole of \<open>C\<close>: for \<open>C = 1\<close> the sum is 2.
\<close>

theorem ARC_capacity_sum_not_C:
  "ARC_capacity_sum (ARCCache_init (0::int) (''''::string) 1 2) = 2 \<and>
   arc_capacity (ARCCache_init (0::int) (''''::string) 1 2) = 1 \<and>
   ARC_capacity_sum (ARCCache_init (0::int) (''''::string) 1 2)
     \<noteq> arc_capacity (ARCCache_init (0::int) (''''::string) 1 2)"
  by (simp add: arc_defs Let_def)

text \<open>
  Claim C2 as amended: for an \<open>ARCCache\<close> constructed with total capacity \<open>C\<close>
  (with \<open>2 * C\<close> representable in \<open>size_t\<close>), immediately after construction and
  after every sequence of \<open>put\<close> and \<open>get\<close> calls that returns, the capacity of the
  recency half plus the capacity of the frequency half equals \<open>2 * C\<close>.
\<close>

theorem ARC_capacity_sum_invariant:
  "2 * C < 2 ^ 64 \<Longrightarrow> ARC_run dv ops (ARCCache_init dk dv C T) = Some (rs, a) \<Longrightarrow>
     ARC_capacity_sum a = 2 * C"
  using ARC_run_sum[of dv ops "ARCCache_init dk dv C T" rs a] by (simp add: ARC_init_sum)

theorem ARC_capacity_sum_invariant_witness:
  "2 * (1::nat) < 2 ^ 64 \<and>
   map_option (\<lambda>(rs, a). (alru_capacity (arc_lruCache a), alfu_capacity (arc_lfuCache a), ARC_capacity_sum a))
     (ARC_run '''' [Put (1::int) ''a'', Put 2 ''b'', Put 1 ''c''] (ARCCache_init 0 '''' 1 2))
   = Some (2, 0, 2 * 1)"
proof -
  define r where "r = ARC_run '''' [Put (1::int) ''a'', Put 2 ''b'', Put 1 ''c''] (ARCCache_init 0 '''' 1 2)"
  have e: "map_option (\<lambda>(rs, a). (rs, alru_capacity (arc_lruCache a), alfu_capacity (arc_lfuCache a))) r
     = Some ([], 2, 0)"
    unfolding r_def by (simp add: arc_defs Let_def)
  then obtain a where ra: "r = Some ([], a)" and c: "alru_capacity (arc_lruCache a) = 2" "alfu_capacity (arc_lfuCache a) = 0"
    by (cases r) auto
  have b: "2 * (1::nat) < 2 ^ 64" by simp
  from ARC_capacity_sum_invariant[OF b ra[unfolded r_def]] c b
  show ?thesis unfolding r_def[symmetric] ra by simp
qed

text \<open>
  Claim C7: a call of \<open>checkGhost\<close> that returns leaves the sum of the two capacities
  unchanged (the sum being representable in \<open>size_t\<close>); each capacity moves by at most
  one, so none wraps below zero; \<open>decreaseCapacity\<close> on a half of capacity 0 returns
  false and changes nothing, and the other half then does not grow.
\<close>

theorem ARC_checkGhost_balance:
  assumes "ARC_checkGhost key a = Some (hit, a')" and "ARC_capacity_sum a < 2 ^ 64"
  shows "ARC_capacity_sum a' = ARC_capacity_sum a \<and>
         alru_capacity (arc_lruCache a') \<le> alru_capacity (arc_lruCache a) + 1 \<and>
         alru_capacity (arc_lruCache a) \<le> alru_capacity (arc_lruCache a') + 1 \<and>
         alfu_capacity (arc_lfuCache a') \<le> alfu_capacity (arc_lfuCache a) + 1 \<and>
         alfu_capacity (arc_lfuCache a) \<le> alfu_capacity (arc_lfuCache a') + 1 \<and>
         (alfu_capacity (arc_lfuCache a) = 0 \<longrightarrow>
            ARCLFU_decreaseCapacity (arc_lfuCache a) = Some (False, arc_lfuCache a) \<and>
            alru_capacity (arc_lruCache a') \<le> alru_capacity (arc_lruCache a)) \<and>
         (alru_capacity (arc_lruCache a) = 0 \<longrightarrow>
            ARCLRU_decreaseCapacity (arc_lruCache a) = Some (False, arc_lruCache a) \<and>
            alfu_capacity (arc_lfuCache a') \<le> alfu_capacity (arc_lfuCache a))"
  using ARC_checkGhost_cases[OF assms(1)] assms(2)
  by (auto simp: ARC_capacity_sum_def size_t_incr_small alru_decreaseCapacity_zero alfu_decreaseCapacity_zero)
theorem ARC_checkGhost_balance_witness:
  "Option.bind (ARC_run '''' [Put (1::int) ''a'', Put 2 ''b'', Put 1 ''c'', Put 3 ''d''] (ARCCache_init 0 '''' 1 2))
     (\<lambda>(rs, a). map_option
        (\<lambda>(hit, a'). (alru_capacity (arc_lruCache a), alfu_capacity (arc_lfuCache a), hit,
                      alru_capacity (arc_lruCache a'), alfu_capacity (arc_lfuCache a'),
                      ARC_capacity_sum a' = ARC_capacity_sum a))
        (ARC_checkGhost 2 a))
   = Some (2, 0, True, 2, 0, True) \<and>
   map_option
     (\<lambda>(hit, a'). (hit, alru_capacity (arc_lruCache a'), alfu_capacity (arc_lfuCache a'),
                   ARC_capacity_sum a' = ARC_capacity_sum (ARCCache_init (0::int) (''''::string) 0 2)))
     (ARC_checkGhost 1 (ARCCache_init (0::int) (''''::string) 0 2))
   = Some (False, 0, 0, True)"
proof -
  define r where
    "r = ARC_run '''' [Put (1::int) ''a'', Put 2 ''b'', Put 1 ''c'', Put 3 ''d''] (ARCCache_init 0 '''' 1 2)"
  define z where "z = ARCCache_init (0::int) (''''::string) 0 2"
  have e: "Option.bind r (\<lambda>(rs, a). map_option
        (\<lambda>(hit, a'). (alru_capacity (arc_lruCache a), alfu_capacity (arc_lfuCache a), hit,
                      alru_capacity (arc_lruCache a'), alfu_capacity (arc_lfuCache a')))
        (ARC_checkGhost 2 a)) = Some (2, 0, True, 2, 0)"
    unfolding r_def by (simp add: arc_defs Let_def)
  then obtain rs a a' where ra: "r = Some (rs, a)" and cg: "ARC_checkGhost 2 a = Some (True, a')"
    and c: "alru_capacity (arc_lruCache a) = 2" "alfu_capacity (arc_lfuCache a) = 0"
           "alru_capacity (arc_lruCache a') = 2" "alfu_capacity (arc_lfuCache a') = 0"
    by (auto simp: bind_eq_Some_conv)
  have b: "ARC_capacity_sum a < 2 ^ 64" using c by (simp add: ARC_capacity_sum_def)
  have s: "ARC_capacity_sum a' = ARC_capacity_sum a"
    using ARC_checkGhost_balance[OF cg b] by simp
  have ez: "map_option (\<lambda>(hit, a'). (hit, alru_capacity (arc_lruCache a'), alfu_capacity (arc_lfuCache a')))
              (ARC_checkGhost 1 z) = Some (False, 0, 0)"
    unfolding z_def by (simp add: arc_defs Let_def)
  then obtain z' where cz: "ARC_checkGhost 1 z = Some (False, z')"
    and cz': "alru_capacity (arc_lruCache z') = 0" "alfu_capacity (arc_lfuCache z') = 0"
    by auto
  have bz: "ARC_capacity_sum z < 2 ^ 64" unfolding z_def by (simp add: arc_defs Let_def)
  have sz: "ARC_capacity_sum z' = ARC_capacity_sum z"
    using ARC_checkGhost_balance[OF cz bz] by simp
  have "Option.bind r
     (\<lambda>(rs, a). map_option
        (\<lambda>(hit, a'). (alru_capacity (arc_lruCache a), alfu_capacity (arc_lfuCache a), hit,
                      alru_capacity (arc_lruCache a'), alfu_capacity (arc_lfuCache a'),
                      ARC_capacity_sum a' = ARC_capacity_sum a))
        (ARC_checkGhost 2 a))
   = Some (2, 0, True, 2, 0, True) \<and>
   map_option
     (\<lambda>(hit, a'). (hit, alru_capacity (arc_lruCache a'), alfu_capacity (arc_lfuCache a'),
                   ARC_capacity_sum a' = ARC_capacity_sum z))
     (ARC_checkGhost 1 z)
   = Some (False, 0, 0, True)"
    using ra cg c s cz cz' sz by simp
  then show ?thesis unfolding r_def z_def .
qed

section \<open>The one-argument \<open>get\<close> on a miss\<close>

lemma LRU_get1_miss:
  "map_of (lru_nodeMap c) key = None \<Longrightarrow> LRU_get1 dv key c = Some (dv, c)"
  by (simp add: LRU_get1_def LRU_get_def)

text \<open>
  \<open>LFUCache::get(key)\<close> and \<open>LFUAvgCache::get(key)\<close> on a miss hand back the content
  \<open>uv\<close> of their local \<open>Value val;\<close> as it was declared: no default value occurs.
\<close>

lemma LFU_get1_miss:
  "map_of (lfu_cacheMap c) key = None \<Longrightarrow> LFU_get1 uv key c = Some (uv, c)"
  by (simp add: LFU_get1_def LFU_get_def)

lemma LFUAvg_get1_miss:
  "map_of (lfa_cacheMap c) key = None \<Longrightarrow> LFUAvg_get1 uv key c = Some (uv, c)"
  by (simp add: LFUAvg_get1_def LFUAvg_get_def)

lemma LRUK_get1_miss_no_pending:
  "map_of (lru_nodeMap (lruk_main c)) key = None \<Longrightarrow> map_of (lruk_histValMap c) key = None \<Longrightarrow>
   LRUK_get1 dv key c = Some (v, c') \<Longrightarrow> v = dv"
  by (auto simp: LRUK_get1_def LRUK_get_def LRU_get_def Let_def split: option.splits prod.splits if_splits)

lemma LRUK_get1_miss_below_k:
  "map_of (lru_nodeMap (lruk_main c)) key = None \<Longrightarrow>
   LRU_get1 0 key (lruk_histList c) = Some (n, h) \<Longrightarrow> size_t_incr n < size_t_of_int (lruk_k c) \<Longrightarrow>
   LRUK_get1 dv key c = Some (v, c') \<Longrightarrow> v = dv"
  by (auto simp: LRUK_get1_def LRUK_get_def LRU_get_def Let_def split: option.splits prod.splits if_splits)

lemma LRUK_get1_miss_promotes:
  "map_of (lru_nodeMap (lruk_main c)) key = None \<Longrightarrow>
   LRU_get1 0 key (lruk_histList c) = Some (n, h) \<Longrightarrow> size_t_of_int (lruk_k c) \<le> size_t_incr n \<Longrightarrow>
   map_of (lruk_histValMap c) key = Some hval \<Longrightarrow>
   LRUK_get1 dv key c = Some (v, c') \<Longrightarrow> v = hval"
  by (auto simp: LRUK_get1_def LRUK_get_def LRU_get_def Let_def split: option.splits prod.splits if_splits)

lemma ARC_get1_absent:
  assumes "map_of (alru_mainCache (arc_lruCache a)) key = None"
    and "map_of (alfu_mainCache (arc_lfuCache a)) key = None"
    and "ARC_get1 uv key a = Some (r, a')"
  shows "r = Inl (runtime_error ''Key not found in cache'')"
proof -
  from assms(3) obtain hit a1 where cg: "ARC_checkGhost key a = Some (hit, a1)"
    by (auto simp: ARC_get1_def ARC_get_def split: option.splits)
  note ab = ARC_checkGhost_absent[OF cg assms(1) assms(2)]
  from assms(3) cg ab show ?thesis
    by (auto simp: ARC_get1_def ARC_get_def alru_get_miss alfu_get_miss split: option.splits prod.splits bool.splits)
qed

text \<open>
  Claim C3 says that for every cache type \<open>get(key)\<close> with a key that is not resident
  returns a default-constructed value and signals no error. \<open>ARCCache::get(key)\<close> throws
  \<open>std::runtime_error\<close> on a miss; and \<open>LRUKCache::get(key)\<close>, called for a key that is
  not in the main cache but has a pending value in the history, returns that value once
  the access counter reaches \<open>k_\<close>.
\<close>

theorem get1_miss_counterexample:
  "map_option fst (ARC_get1 '''' (1::int) (ARCCache_init 0 '''' 4 2))
     = Some (Inl (runtime_error ''Key not found in cache'')) \<and>
   Option.bind (LRUK_put '''' (1::int) ''a'' (LRUKCache_init 0 '''' 2 4 2))
     (\<lambda>c. map_option (\<lambda>(v, c'). (map_of (lru_nodeMap (lruk_main c)) 1, v)) (LRUK_get1 '''' 1 c))
     = Some (None, ''a'')"
  by (simp add: arc_defs lru_defs lruk_defs Let_def)

text \<open>
  Claim C3 as amended, policy by policy, for a key that is not resident.

  \<^item> \<open>LRUCache::get(key)\<close> returns the default value \<open>dv\<close> of its local \<open>Value val{}\<close>
    and leaves the cache as it was.
  \<^item> \<open>LFUCache::get(key)\<close> and \<open>LFUAvgCache::get(key)\<close> signal no error and leave the
    cache as it was. What they return is the content \<open>uv\<close> of the local \<open>Value val;\<close>,
    which has no initialiser: the statement says so for every \<open>uv\<close> and promises no
    default value.
  \<^item> \<open>LRUKCache::get(key)\<close>, for a key that is not in the main cache, returns the default
    value when the history holds no pending value for the key, and when the incremented
    access counter stays below \<open>k_\<close>; it returns the pending value when there is one and
    the incremented counter has reached \<open>k_\<close>.
  \<^item> \<open>ARCCache::get(key)\<close>, for a key that is in the main map of neither half, throws
    \<open>std::runtime_error("Key not found in cache")\<close>.
\<close>

theorem get1_miss:
  "(map_of (lru_nodeMap c) key = None \<longrightarrow> LRU_get1 dv key c = Some (dv, c)) \<and>
   (map_of (lfu_cacheMap d) key = None \<longrightarrow> LFU_get1 uv key d = Some (uv, d)) \<and>
   (map_of (lfa_cacheMap e) key = None \<longrightarrow> LFUAvg_get1 uv key e = Some (uv, e)) \<and>
   (map_of (lru_nodeMap (lruk_main k)) key = None \<and> LRUK_get1 dv key k = Some (v, k') \<and>
    map_of (lruk_histValMap k) key = None
      \<longrightarrow> v = dv) \<and>
   (map_of (lru_nodeMap (lruk_main k)) key = None \<and> LRUK_get1 dv key k = Some (v, k') \<and>
    LRU_get1 0 key (lruk_histList k) = Some (n, h) \<and> size_t_incr n < size_t_of_int (lruk_k k)
      \<longrightarrow> v = dv) \<and>
   (map_of (lru_nodeMap (lruk_main k)) key = None \<and> LRUK_get1 dv key k = Some (v, k') \<and>
    LRU_get1 0 key (lruk_histList k) = Some (n, h) \<and> size_t_of_int (lruk_k k) \<le> size_t_incr n \<and>
    map_of (lruk_histValMap k) key = Some hval
      \<longrightarrow> v = hval) \<and>
   (map_of (alru_mainCache (arc_lruCache a)) key = None \<and>
    map_of (alfu_mainCache (arc_lfuCache a)) key = None \<and> ARC_get1 uv key a = Some (r, a')
      \<longrightarrow> r = Inl (runtime_error ''Key not found in cache''))"
proof (intro conjI impI)
  assume "map_of (lru_nodeMap c) key = None"
  then show "LRU_get1 dv key c = Some (dv, c)" by (rule LRU_get1_miss)
next
  assume "map_of (lfu_cacheMap d) key = None"
  then show "LFU_get1 uv key d = Some (uv, d)" by (rule LFU_get1_miss)
next
  assume "map_of (lfa_cacheMap e) key = None"
  then show "LFUAvg_get1 uv key e = Some (uv, e)" by (rule LFUAvg_get1_miss)
next
  assume "map_of (lru_nodeMap (lruk_main k)) key = None \<and> LRUK_get1 dv key k = Some (v, k') \<and>
    map_of (lruk_histValMap k) key = None"
  then show "v = dv"
    using LRUK_get1_miss_no_pending[of k key dv v k'] by simp
next
  assume "map_of (lru_nodeMap (lruk_main k)) key = None \<and> LRUK_get1 dv key k = Some (v, k') \<and>
    LRU_get1 0 key (lruk_histList k) = Some (n, h) \<and> size_t_incr n < size_t_of_int (lruk_k k)"
  then show "v = dv"
    using LRUK_get1_miss_below_k[of k key n h dv v k'] by simp
next
  assume "map_of (lru_nodeMap (lruk_main k)) key = None \<and> LRUK_get1 dv key k = Some (v, k') \<and>
    LRU_get1 0 key (lruk_histList k) = Some (n, h) \<and> size_t_of_int (lruk_k k) \<le> size_t_incr n \<and>
    map_of (lruk_histValMap k) key = Some hval"
  then show "v = hval"
    using LRUK_get1_miss_promotes[of k key n h hval dv v k'] by simp
next
  assume "map_of (alru_mainCache (arc_lruCache a)) key = None \<and>
    map_of (alfu_mainCache (arc_lfuCache a)) key = None \<and> ARC_get1 uv key a = Some (r, a')"
  then show "r = Inl (runtime_error ''Key not found in cache'')"
    using ARC_get1_absent[of a key uv r a'] by simp
qed

text \<open>
  The statement at concrete caches, one for every case: an empty \<open>LRUCache\<close>; an empty
  \<open>LFUCache\<close> and an empty \<open>LFUAvgCache\<close> of \<open>int\<close> values whose local holds 42 (the
  default value being 0); an empty \<open>LRUKCache\<close> with \<open>k_ = 1\<close> (counter reached, no
  pending value); an \<open>LRUKCache\<close> after \<open>put(1, "a")\<close> with \<open>k_ = 3\<close> (pending value,
  counter at 2) and with \<open>k_ = 2\<close> (pending value, counter reached); an empty
  \<open>ARCCache\<close>.
\<close>

theorem get1_miss_witness:
  "LRU_get1 '''' (1::int) (LRUCache_init 0 (''''::string) 2) = Some ('''', LRUCache_init 0 '''' 2) \<and>
   LFU_get1 (42::int) (1::int) (LFUCache_init 0 0 2) = Some (42, LFUCache_init 0 0 2) \<and>
   LFUAvg_get1 (42::int) (1::int) (LFUAvgCache_init (\<lambda>m. m) 0 0 2 10)
     = Some (42, LFUAvgCache_init (\<lambda>m. m) 0 0 2 10) \<and>
   map_option fst (LRUK_get1 '''' (1::int) (LRUKCache_init 0 (''''::string) 2 4 1)) = Some '''' \<and>
   Option.bind (LRUK_put '''' (1::int) ''a'' (LRUKCache_init 0 (''''::string) 2 4 3))
     (\<lambda>k. map_option
        (\<lambda>(v, k'). (map_of (lru_nodeMap (lruk_main k)) 1, map_of (lruk_histValMap k) 1, v))
        (LRUK_get1 '''' 1 k))
     = Some (None, Some ''a'', '''') \<and>
   Option.bind (LRUK_put '''' (1::int) ''a'' (LRUKCache_init 0 (''''::string) 2 4 2))
     (\<lambda>k. map_option
        (\<lambda>(v, k'). (map_of (lru_nodeMap (lruk_main k)) 1, map_of (lruk_histValMap k) 1, v))
        (LRUK_get1 '''' 1 k))
     = Some (None, Some ''a'', ''a'') \<and>
   map_option fst (ARC_get1 '''' (1::int) (ARCCache_init 0 (''''::string) 4 2))
     = Some (Inl (runtime_error ''Key not found in cache''))"
proof -
  define c where "c = LRUCache_init (0::int) (''''::string) 2"
  define d where "d = LFUCache_init (0::int) (0::int) 2"
  define e where "e = LFUAvgCache_init (\<lambda>m. m) (0::int) (0::int) 2 10"
  define k1 where "k1 = LRUKCache_init (0::int) (''''::string) 2 4 1"
  define p2 where "p2 = LRUK_put '''' (1::int) ''a'' (LRUKCache_init 0 (''''::string) 2 4 3)"
  define p3 where "p3 = LRUK_put '''' (1::int) ''a'' (LRUKCache_init 0 (''''::string) 2 4 2)"
  define a where "a = ARCCache_init (0::int) (''''::string) 4 2"
  have hc: "map_of (lru_nodeMap c) 1 = None" unfolding c_def by (simp add: lru_defs Let_def)
  have hd: "map_of (lfu_cacheMap d) 1 = None" unfolding d_def by (simp add: lfu_defs)
  have he: "map_of (lfa_cacheMap e) 1 = None" unfolding e_def by (simp add: lfa_defs)
  note lru = get1_miss[THEN conjunct1, THEN mp]
  note lfu = get1_miss[THEN conjunct2, THEN conjunct1, THEN mp]
  note lfa = get1_miss[THEN conjunct2, THEN conjunct2, THEN conjunct1, THEN mp]
  note lruk_none =
    get1_miss[THEN conjunct2, THEN conjunct2, THEN conjunct2, THEN conjunct1, THEN mp,
      OF conjI, OF _ conjI]
  note lruk_below =
    get1_miss[THEN conjunct2, THEN conjunct2, THEN conjunct2, THEN conjunct2, THEN conjunct1,
      THEN mp, OF conjI, OF _ conjI, OF _ _ conjI]
  note lruk_reached =
    get1_miss[THEN conjunct2, THEN conjunct2, THEN conjunct2, THEN conjunct2, THEN conjunct2,
      THEN conjunct1, THEN mp, OF conjI, OF _ conjI, OF _ _ conjI, OF _ _ _ conjI]
  note arc =
    get1_miss[THEN conjunct2, THEN conjunct2, THEN conjunct2, THEN conjunct2, THEN conjunct2,
      THEN conjunct2, THEN mp, OF conjI, OF _ conjI]
  have rc: "LRU_get1 '''' 1 c = Some ('''', c)" by (rule lru[OF hc])
  have rd: "LFU_get1 42 1 d = Some (42, d)" by (rule lfu[OF hd])
  have re: "LFUAvg_get1 42 1 e = Some (42, e)" by (rule lfa[OF he])
  have hk1: "map_of (lru_nodeMap (lruk_main k1)) 1 = None" "map_of (lruk_histValMap k1) 1 = None"
    unfolding k1_def by (simp_all add: lru_defs lruk_defs Let_def)
  have "LRUK_get1 '''' 1 k1 \<noteq> None" unfolding k1_def by (simp add: lru_defs lruk_defs Let_def)
  then obtain v1 k1' where g1: "LRUK_get1 '''' 1 k1 = Some (v1, k1')" by auto
  have "v1 = ''''" by (rule lruk_none[OF hk1(1) g1 hk1(2)])
  with g1 have rk1: "map_option fst (LRUK_get1 '''' 1 k1) = Some ''''" by simp
  have "map_option
          (\<lambda>k. (map_of (lru_nodeMap (lruk_main k)) 1, map_of (lruk_histValMap k) 1,
                map_option fst (LRU_get1 0 1 (lruk_histList k)), lruk_k k,
                LRUK_get1 '''' 1 k \<noteq> None)) p2
        = Some (None, Some ''a'', Some 1, 3, True)"
    unfolding p2_def by (simp add: lru_defs lruk_defs Let_def)
  then obtain k2 v2 k2' h2 where p2: "p2 = Some k2"
    and hk2: "map_of (lru_nodeMap (lruk_main k2)) 1 = None" "map_of (lruk_histValMap k2) 1 = Some ''a''"
    and n2: "LRU_get1 0 1 (lruk_histList k2) = Some (1, h2)" and kk2: "lruk_k k2 = 3"
    and g2: "LRUK_get1 '''' 1 k2 = Some (v2, k2')"
    by auto
  have b2: "size_t_incr 1 < size_t_of_int (lruk_k k2)"
    by (simp add: kk2 size_t_incr_def size_t_of_int_def)
  have "v2 = ''''" by (rule lruk_below[OF hk2(1) g2 n2 b2])
  with p2 hk2 g2 have rk2: "Option.bind p2
     (\<lambda>k. map_option
        (\<lambda>(v, k'). (map_of (lru_nodeMap (lruk_main k)) 1, map_of (lruk_histValMap k) 1, v))
        (LRUK_get1 '''' 1 k))
     = Some (None, Some ''a'', '''')" by simp
  have "map_option
          (\<lambda>k. (map_of (lru_nodeMap (lruk_main k)) 1, map_of (lruk_histValMap k) 1,
                map_option fst (LRU_get1 0 1 (lruk_histList k)), lruk_k k,
                LRUK_get1 '''' 1 k \<noteq> None)) p3
        = Some (None, Some ''a'', Some 1, 2, True)"
    unfolding p3_def by (simp add: lru_defs lruk_defs Let_def)
  then obtain k3 v3 k3' h3 where p3: "p3 = Some k3"
    and hk3: "map_of (lru_nodeMap (lruk_main k3)) 1 = None" "map_of (lruk_histValMap k3) 1 = Some ''a''"
    and n3: "LRU_get1 0 1 (lruk_histList k3) = Some (1, h3)" and kk3: "lruk_k k3 = 2"
    and g3: "LRUK_get1 '''' 1 k3 = Some (v3, k3')"
    by auto
  have b3: "size_t_of_int (lruk_k k3) \<le> size_t_incr 1"
    by (simp add: kk3 size_t_incr_def size_t_of_int_def)
  have "v3 = ''a''" by (rule lruk_reached[OF hk3(1) g3 n3 b3 hk3(2)])
  with p3 hk3 g3 have rk3: "Option.bind p3
     (\<lambda>k. map_option
        (\<lambda>(v, k'). (map_of (lru_nodeMap (lruk_main k)) 1, map_of (lruk_histValMap k) 1, v))
        (LRUK_get1 '''' 1 k))
     = Some (None, Some ''a'', ''a'')" by simp
  have ha: "map_of (alru_mainCache (arc_lruCache a)) 1 = None"
    "map_of (alfu_mainCache (arc_lfuCache a)) 1 = None"
    unfolding a_def by (simp_all add: arc_defs Let_def)
  have "ARC_get1 '''' 1 a \<noteq> None" unfolding a_def by (simp add: arc_defs Let_def)
  then obtain r a' where ga: "ARC_get1 '''' 1 a = Some (r, a')" by auto
  have "r = Inl (runtime_error ''Key not found in cache'')" by (rule arc[OF ha(1) ha(2) ga])
  with ga have ra: "map_option fst (ARC_get1 '''' 1 a)
      = Some (Inl (runtime_error ''Key not found in cache''))" by simp
  from rc rd re rk1 rk2 rk3 ra
  have "LRU_get1 '''' 1 c = Some ('''', c) \<and> LFU_get1 42 1 d = Some (42, d) \<and>
        LFUAvg_get1 42 1 e = Some (42, e) \<and> map_option fst (LRUK_get1 '''' 1 k1) = Some '''' \<and>
        Option.bind p2
          (\<lambda>k. map_option
             (\<lambda>(v, k'). (map_of (lru_nodeMap (lruk_main k)) 1, map_of (lruk_histValMap k) 1, v))
             (LRUK_get1 '''' 1 k))
          = Some (None, Some ''a'', '''') \<and>
        Option.bind p3
          (\<lambda>k. map_option
             (\<lambda>(v, k'). (map_of (lru_nodeMap (lruk_main k)) 1, map_of (lruk_histValMap k) 1, v))
             (LRUK_get1 '''' 1 k))
          = Some (None, Some ''a'', ''a'') \<and>
        map_option fst (ARC_get1 '''' 1 a) = Some (Inl (runtime_error ''Key not found in cache''))"
    by simp
  then show ?thesis unfolding c_def d_def e_def k1_def p2_def p3_def a_def .
qed

section \<open>LFU-Avg: \<open>minFreq_\<close> after an aging pass\<close>

text \<open>
  One key held in a cache of capacity 1 with \<open>maxAvgFreq_ = 252\<close>, whose container
  visits its one entry when it holds one: the \<open>put\<close> of the key gives the single-key
  shape at frequency 1, and every \<open>get\<close> below the threshold moves the node to a fresh
  list one frequency higher.
\<close>

lemma LFUAvg_single_put:
  "ord [(key, 0)] = [(key, 0)] \<Longrightarrow>
   \<exists>c. LFUAvg_put uv key val (LFUAvgCache_init ord dk dv 1 252) = Some c \<and>
       LFUAvg_single key val 1 252 1 1 1 c"
  by (simp add: lfa_defs freqlist_defs LFUAvg_single_def Let_def)

lemma LFUAvg_single_get:
  assumes "LFUAvg_single key val 1 252 f mf H c" and "1 \<le> f" and "f < 252"
    and "mf = 0 \<or> mf = f"
  shows "\<exists>c'. LFUAvg_get key out c = Some ((True, val), c') \<and>
              LFUAvg_single key val 1 252 (f + 1) 0 (Suc (Suc H)) c'"
  using assms
  by (auto simp add: lfa_defs freqlist_defs LFUAvg_single_def Let_def)

lemma LFUAvg_single_gets:
  "LFUAvg_single key val 1 252 f mf H c \<Longrightarrow> 1 \<le> f \<Longrightarrow> f + int n \<le> 252 \<Longrightarrow>
   mf = 0 \<or> mf = f \<Longrightarrow>
   \<exists>c' H' mf'. LFUAvg_run dv (replicate n (Get key)) c = Some (replicate n (True, val), c') \<and>
      LFUAvg_single key val 1 252 (f + int n) mf' H' c' \<and> (mf' = 0 \<or> mf' = f + int n)"
proof (induction n arbitrary: f mf H c)
  case 0
  then show ?case by auto
next
  case (Suc n)
  from Suc.prems have "f < 252" by simp
  from LFUAvg_single_get[OF Suc.prems(1) Suc.prems(2) this Suc.prems(4), of dv]
  obtain c1 where g: "LFUAvg_get key dv c = Some ((True, val), c1)"
    and s: "LFUAvg_single key val 1 252 (f + 1) 0 (Suc (Suc H)) c1" by blast
  from Suc.prems have "1 \<le> f + 1" "f + 1 + int n \<le> 252" by simp_all
  from Suc.IH[OF s this] obtain c' H' mf' where
    r: "LFUAvg_run dv (replicate n (Get key)) c1 = Some (replicate n (True, val), c')"
    and s': "LFUAvg_single key val 1 252 (f + 1 + int n) mf' H' c'"
    and m: "mf' = 0 \<or> mf' = f + 1 + int n"
    by blast
  have e: "f + 1 + int n = f + int (Suc n)" by simp
  show ?case using g r s' m unfolding e by auto
qed

text \<open>
  The \<open>get\<close> that takes the total to 253 runs the aging pass: the node goes from
  frequency 253 to 127, onto the only list, and \<open>updateMinFreq\<close> leaves \<open>minFreq_\<close> at 1.
\<close>

lemma LFUAvg_single_aging:
  assumes "LFUAvg_single key val 1 252 252 mf H c" and "mf = 0 \<or> mf = 252"
  shows "\<exists>c'. LFUAvg_get key out c = Some ((True, val), c') \<and>
           lfa_minFreq c' = 1 \<and> map fst (lfa_freqListMap c') = [127] \<and>
           least_nonempty_freq (lfa_freqListMap c') (lfa_heap c') = Some 127 \<and>
           lfa_cacheMap c' = [(key, 0)] \<and> lfu_freq (lfu_store (lfa_heap c') 0) = 127 \<and>
           lfa_capacity c' = 1"
  using assms
  by (auto simp add: lfa_defs freqlist_defs LFUAvg_single_def Let_def)

lemma LFUAvg_run_append:
  "LFUAvg_run dv (xs @ ys) c =
     (case LFUAvg_run dv xs c of
        None \<Rightarrow> None
      | Some (rs, c1) \<Rightarrow>
          (case LFUAvg_run dv ys c1 of None \<Rightarrow> None | Some (rs', c2) \<Rightarrow> Some (rs @ rs', c2)))"
proof (induction xs arbitrary: c)
  case Nil
  then show ?case by (simp split: option.splits)
next
  case (Cons x xs)
  then show ?case by (cases x) (auto split: option.splits)
qed

text \<open>
  Claim C8 says that the aging pass recomputes \<open>minFreq_\<close> as the smallest non-empty
  frequency. In an \<open>LFUAvgCache\<close> of capacity 1 with \<open>maxAvgFreq_ = 252\<close>, in
  whatever order its container visits its entries (\<open>ord\<close>: one entry is visited as it
  is), \<open>put(1, "a")\<close> followed by 252 calls of \<open>get(1)\<close> (all hits) ends with the aging
  pass of the last call: the only list is then at frequency 127 and \<open>minFreq_\<close> is 1,
  because \<open>updateMinFreq\<close> starts from \<open>INT8_MAX = 127\<close> and takes a result of 127 for
  "no list". The next \<open>put(2, "b")\<close> has no result: \<open>kickOut\<close> goes through the null
  pointer \<open>freqListMap_[1]\<close>.
\<close>

theorem LFUAvg_aging_minFreq:
  assumes "\<forall>x. ord [x] = [x]"
  shows "map_option
     (\<lambda>(rs, c). (rs = replicate 252 (True, ''a''), lfa_minFreq c, map fst (lfa_freqListMap c),
                 least_nonempty_freq (lfa_freqListMap c) (lfa_heap c), LFUAvg_put '''' 2 ''b'' c))
     (LFUAvg_run '''' (Put (1::int) ''a'' # replicate 252 (Get 1))
        (LFUAvgCache_init ord 0 '''' 1 252))
   = Some (True, 1, [127], Some 127, None)"
proof -
  from assms have o: "ord [(1::int, 0)] = [(1, 0)]" by simp
  obtain c1 where p: "LFUAvg_put '''' (1::int) ''a'' (LFUAvgCache_init ord 0 '''' 1 252) = Some c1"
    and s1: "LFUAvg_single (1::int) ''a'' 1 252 1 1 1 c1"
    using LFUAvg_single_put[of ord "1::int" "''''" "''a''" 0 "''''", OF o] by blast
  from LFUAvg_single_gets[OF s1, of 251 "''''"] obtain c2 H2 mf2 where
    r: "LFUAvg_run '''' (replicate 251 (Get 1)) c1 = Some (replicate 251 (True, ''a''), c2)"
    and s2: "LFUAvg_single (1::int) ''a'' 1 252 252 mf2 H2 c2" and m2: "mf2 = 0 \<or> mf2 = 252"
    by auto
  from LFUAvg_single_aging[OF s2 m2, of "''''"] obtain c3 where
    g: "LFUAvg_get 1 '''' c2 = Some ((True, ''a''), c3)"
    and f: "lfa_minFreq c3 = 1" "map fst (lfa_freqListMap c3) = [127]"
       "least_nonempty_freq (lfa_freqListMap c3) (lfa_heap c3) = Some 127"
       "lfa_cacheMap c3 = [(1, 0)]" "lfa_capacity c3 = 1"
    by (elim exE conjE)
  have k: "LFUAvg_put '''' 2 ''b'' c3 = None"
    using f by (auto simp: LFUAvg_put_def LFUAvg_putInternal_def LFUAvg_kickOut_def
        size_t_of_int_def map_of_eq_None_iff image_iff split: option.splits)
  have e: "replicate 252 (Get (1::int)) = replicate 251 (Get 1) @ [Get 1 :: (int, string) cache_op]"
    by (simp add: replicate_append_same eval_nat_numeral)
  have e2: "replicate 252 (True, ''a'') = replicate 251 (True, ''a'') @ [(True, ''a'')]"
    by (simp add: replicate_append_same eval_nat_numeral)
  show ?thesis
    unfolding e e2 by (simp add: p LFUAvg_run_append r g f k)
qed

text \<open>The run in a cache whose container visits its entries in the order of insertion.\<close>

theorem LFUAvg_aging_minFreq_witness:
  "map_option
     (\<lambda>(rs, c). (rs = replicate 252 (True, ''a''), lfa_minFreq c, map fst (lfa_freqListMap c),
                 least_nonempty_freq (lfa_freqListMap c) (lfa_heap c), LFUAvg_put '''' 2 ''b'' c))
     (LFUAvg_run '''' (Put (1::int) ''a'' # replicate 252 (Get 1))
        (LFUAvgCache_init (\<lambda>m. m) 0 '''' 1 252))
   = Some (True, 1, [127], Some 127, None)"
  using LFUAvg_aging_minFreq[of "\<lambda>m. m"] by simp

section \<open>Hash-sharded LFU: after \<open>purge\<close>\<close>

lemma LFUHash_put_sliceNum:
  "LFUHash_put hashFunc dv key val w = Some w' \<Longrightarrow> lfh_sliceNum w' = lfh_sliceNum w"
  by (auto simp: LFUHash_put_def Let_def split: option.splits if_splits)

lemma LFUHash_get_sliceNum:
  "LFUHash_get hashFunc key out w = Some (r, w') \<Longrightarrow> lfh_sliceNum w' = lfh_sliceNum w"
  by (auto simp: LFUHash_get_def Let_def split: option.splits if_splits)

lemma LFUHash_run_sliceNum:
  "LFUHash_run hashFunc dv ops w = Some (rs, w') \<Longrightarrow> lfh_sliceNum w' = lfh_sliceNum w"
proof (induction ops arbitrary: w rs)
  case Nil
  then show ?case by simp
next
  case (Cons x ops)
  then show ?case
    by (cases x) (auto split: option.splits dest!: LFUHash_put_sliceNum LFUHash_get_sliceNum)
qed

lemma int_of_size_t_range: "- (2 ^ 31) \<le> int_of_size_t n \<and> int_of_size_t n < 2 ^ 31"
  by (auto simp: int_of_size_t_def Let_def)

lemma size_t_of_int_nonzero:
  "i \<noteq> 0 \<Longrightarrow> - (2 ^ 31) \<le> i \<Longrightarrow> i < 2 ^ 31 \<Longrightarrow> size_t_of_int i \<noteq> 0"
proof -
  assume a: "i \<noteq> 0" "- (2 ^ 31) \<le> i" "i < 2 ^ 31"
  have "i mod 2 ^ 64 \<noteq> 0"
  proof
    assume "i mod 2 ^ 64 = 0"
    then have "(2::int) ^ 64 dvd i" by (simp add: dvd_eq_mod_eq_0)
    then obtain q where "i = 2 ^ 64 * q" by (auto simp: dvd_def)
    with a show False by (cases "q = 0") (auto simp: abs_mult dest!: zdvd_imp_le)
  qed
  moreover have "0 \<le> i mod 2 ^ 64" by simp
  ultimately show ?thesis by (simp add: size_t_of_int_def)
qed

lemma LFUHashCache_init_sliceNum:
  assumes "LFUHashCache_init ord dk dv hw capacity sliceNu maxAvgFreq = Some w"
    and "sliceNu < 2 ^ 31"
  shows "size_t_of_int (lfh_sliceNum w) \<noteq> 0"
proof -
  from assms(1) have n: "lfh_sliceNum w = (if sliceNu > 0 then sliceNu else int_of_size_t hw)"
    and z: "lfh_sliceNum w \<noteq> 0"
    by (auto simp: LFUHashCache_init_def Let_def split: if_splits)
  have "- (2 ^ 31) \<le> lfh_sliceNum w \<and> lfh_sliceNum w < 2 ^ 31"
    using n assms(2) int_of_size_t_range[of hw] by (auto split: if_splits)
  with z show ?thesis by (simp add: size_t_of_int_nonzero)
qed

lemma LFUHash_purge_fields:
  "lfh_lfuSliceCaches (LFUHash_purge w) = [] \<and> lfh_sliceNum (LFUHash_purge w) = lfh_sliceNum w"
  by (simp add: LFUHash_purge_def)

lemma LFUHash_put_no_slices:
  "size_t_of_int (lfh_sliceNum w) \<noteq> 0 \<Longrightarrow> lfh_lfuSliceCaches w = [] \<Longrightarrow>
   LFUHash_put hashFunc dv key val w = Some w"
  by (simp add: LFUHash_put_def LFUHash_getSliceIndex_def)

lemma LFUHash_get_no_slices:
  "size_t_of_int (lfh_sliceNum w) \<noteq> 0 \<Longrightarrow> lfh_lfuSliceCaches w = [] \<Longrightarrow>
   LFUHash_get hashFunc key out w = Some ((False, out), w)"
  by (simp add: LFUHash_get_def LFUHash_getSliceIndex_def)

lemma LFUHash_run_no_slices:
  "size_t_of_int (lfh_sliceNum w) \<noteq> 0 \<Longrightarrow> lfh_lfuSliceCaches w = [] \<Longrightarrow>
   \<exists>rs. LFUHash_run hashFunc dv ops w = Some (rs, w) \<and> set rs \<subseteq> {(False, dv)}"
proof (induction ops)
  case Nil
  then show ?case by simp
next
  case (Cons x ops)
  then show ?case
    by (cases x) (auto simp: LFUHash_put_no_slices LFUHash_get_no_slices)
qed

text \<open>
  Claim C10: for a wrapper that was constructed (its slices visiting their entries in
  any order \<open>ord\<close>) and then used, after \<open>purge()\<close> the
  vector of slices is empty; every later \<open>put\<close> returns without changing the wrapper,
  every later \<open>get(key, out)\<close> returns false and leaves \<open>out\<close> as it was, and so
  does every later sequence of such calls.
\<close>

theorem LFUHash_purge_dead:
  assumes "LFUHashCache_init ord dk dv hw capacity sliceNu maxAvgFreq = Some w0"
    and "sliceNu < 2 ^ 31"
    and "LFUHash_run hashFunc dv ops w0 = Some (rs, w)"
  shows "lfh_lfuSliceCaches (LFUHash_purge w) = [] \<and>
         LFUHash_put hashFunc uv key val (LFUHash_purge w) = Some (LFUHash_purge w) \<and>
         LFUHash_get hashFunc key out (LFUHash_purge w) = Some ((False, out), LFUHash_purge w) \<and>
         (\<exists>rs'. LFUHash_run hashFunc dv ops' (LFUHash_purge w) = Some (rs', LFUHash_purge w) \<and>
                set rs' \<subseteq> {(False, dv)})"
proof -
  have "size_t_of_int (lfh_sliceNum w0) \<noteq> 0"
    by (rule LFUHashCache_init_sliceNum[OF assms(1) assms(2)])
  then have n: "size_t_of_int (lfh_sliceNum (LFUHash_purge w)) \<noteq> 0"
    using LFUHash_run_sliceNum[OF assms(3)] by (simp add: LFUHash_purge_fields)
  have e: "lfh_lfuSliceCaches (LFUHash_purge w) = []" by (simp add: LFUHash_purge_fields)
  show ?thesis
    using LFUHash_put_no_slices[OF n e] LFUHash_get_no_slices[OF n e] LFUHash_run_no_slices[OF n e] e
    by simp
qed

theorem LFUHash_purge_dead_witness:
  "Option.bind (LFUHashCache_init (\<lambda>m. m) (0::int) (''''::string) 4 10 2 10)
     (\<lambda>w0. Option.bind (LFUHash_run nat '''' [Put 1 ''a'', Get 1] w0)
        (\<lambda>(rs, w). map_option
           (\<lambda>(rs', w'). (rs, length (lfh_lfuSliceCaches w0), length (lfh_lfuSliceCaches w),
                         lfh_lfuSliceCaches (LFUHash_purge w) = [],
                         rs', lfh_lfuSliceCaches w' = []))
           (LFUHash_run nat '''' [Put 1 ''b'', Get 1] (LFUHash_purge w))))
   = Some ([(True, ''a'')], 2, 2, True, [(False, '''')], True)"
proof -
  define i where "i = LFUHashCache_init (\<lambda>m. m) (0::int) (''''::string) 4 10 2 10"
  have "map_option (\<lambda>w0. length (lfh_lfuSliceCaches w0)) i = Some 2"
    unfolding i_def by (simp add: lfh_defs lfa_defs freqlist_defs Let_def eval_nat_numeral)
  then obtain w0 where iw: "i = Some w0" and l0: "length (lfh_lfuSliceCaches w0) = 2" by auto
  have "Option.bind i (\<lambda>w0. map_option (\<lambda>(rs, w). (rs, length (lfh_lfuSliceCaches w)))
          (LFUHash_run nat '''' [Put 1 ''a'', Get 1] w0)) = Some ([(True, ''a'')], 2)"
    unfolding i_def by (simp add: lfh_defs lfa_defs freqlist_defs Let_def eval_nat_numeral)
  then obtain w where r: "LFUHash_run nat '''' [Put 1 ''a'', Get 1] w0 = Some ([(True, ''a'')], w)"
    and l: "length (lfh_lfuSliceCaches w) = 2"
    using iw by (auto simp: bind_eq_Some_conv)
  from LFUHash_purge_dead[OF iw[unfolded i_def] _ r, where uv = "''''" and key = 1
      and val = "''b''" and out = "''''" and ops' = "[Put 1 ''b'', Get 1]"]
  have p: "lfh_lfuSliceCaches (LFUHash_purge w) = []"
    and q: "LFUHash_put nat '''' 1 ''b'' (LFUHash_purge w) = Some (LFUHash_purge w)"
    and g: "LFUHash_get nat 1 '''' (LFUHash_purge w) = Some ((False, ''''), LFUHash_purge w)"
    by simp_all
  have "Option.bind i
     (\<lambda>w0. Option.bind (LFUHash_run nat '''' [Put 1 ''a'', Get 1] w0)
        (\<lambda>(rs, w). map_option
           (\<lambda>(rs', w'). (rs, length (lfh_lfuSliceCaches w0), length (lfh_lfuSliceCaches w),
                         lfh_lfuSliceCaches (LFUHash_purge w) = [],
                         rs', lfh_lfuSliceCaches w' = []))
           (LFUHash_run nat '''' [Put 1 ''b'', Get 1] (LFUHash_purge w))))
   = Some ([(True, ''a'')], 2, 2, True, [(False, '''')], True)"
    using iw r l0 l p q g by simp
  then show ?thesis unfolding i_def .
qed

end
